theory Spec2Isabelle
  imports Complex_Main
begin

section \<open>Numbers\<close>

text \<open>
  The strategy computes on numpy \<^verbatim>\<open>float64\<close> values. They are modelled as real numbers
  extended by the three special values of IEEE arithmetic: \<^verbatim>\<open>nan\<close> and the infinities
  behave as numpy's do (a comparison with \<^verbatim>\<open>nan\<close> is false, dividing a non-zero number by
  zero gives an infinity and does not raise).  Prices of a bar are finite, so they are plain
  reals.  Overflow, subnormal numbers and the sign of zero are left out.  The operations
  \<open>fadd\<close>, \<open>fsub\<close>, \<open>fmul\<close> and \<open>fdiv\<close> are exact; \<open>round64\<close> rounds a result to the
  nearest \<^verbatim>\<open>float64\<close> and is applied where a property depends on the rounded result: in the
  band confirmations of the entry check and in the update of the speed accumulator.
\<close>

datatype fl = Fin real | PInf | NInf | NaN

text \<open>Rounding to the nearest integer, a tie to the even one.\<close>

definition rne :: "real \<Rightarrow> int" where
  "rne x = (let f = \<lfloor>x\<rfloor>
            in if x - of_int f < 1 / 2 then f
               else if 1 / 2 < x - of_int f then f + 1
               else if even f then f else f + 1)"

text \<open>Rounding to 53 significant bits: with \<open>2 ^ e \<le> \<bar>x\<bar> < 2 ^ (e + 1)\<close> the neighbours of \<open>x\<close>
  are the multiples of \<open>2 ^ (e - 52)\<close>.\<close>

definition round64 :: "real \<Rightarrow> real" where
  "round64 x = (if x = 0 then 0
     else let u = 2 powr (of_int \<lfloor>log 2 \<bar>x\<bar>\<rfloor> - 52) in u * of_int (rne (x / u)))"

fun fl_round :: "fl \<Rightarrow> fl" where
  "fl_round (Fin a) = Fin (round64 a)"
| "fl_round PInf = PInf"
| "fl_round NInf = NInf"
| "fl_round NaN = NaN"

fun fneg :: "fl \<Rightarrow> fl" where
  "fneg (Fin a) = Fin (- a)"
| "fneg PInf = NInf"
| "fneg NInf = PInf"
| "fneg NaN = NaN"

fun fadd :: "fl \<Rightarrow> fl \<Rightarrow> fl" where
  "fadd (Fin a) (Fin b) = Fin (a + b)"
| "fadd NaN y = NaN"
| "fadd x NaN = NaN"
| "fadd PInf NInf = NaN"
| "fadd NInf PInf = NaN"
| "fadd PInf y = PInf"
| "fadd x PInf = PInf"
| "fadd NInf y = NInf"
| "fadd x NInf = NInf"

definition fsub :: "fl \<Rightarrow> fl \<Rightarrow> fl" where
  "fsub x y = fadd x (fneg y)"

fun fmul :: "fl \<Rightarrow> fl \<Rightarrow> fl" where
  "fmul (Fin a) (Fin b) = Fin (a * b)"
| "fmul NaN y = NaN"
| "fmul x NaN = NaN"
| "fmul PInf (Fin b) = (if b = 0 then NaN else if 0 < b then PInf else NInf)"
| "fmul NInf (Fin b) = (if b = 0 then NaN else if 0 < b then NInf else PInf)"
| "fmul (Fin a) PInf = (if a = 0 then NaN else if 0 < a then PInf else NInf)"
| "fmul (Fin a) NInf = (if a = 0 then NaN else if 0 < a then NInf else PInf)"
| "fmul PInf PInf = PInf"
| "fmul PInf NInf = NInf"
| "fmul NInf PInf = NInf"
| "fmul NInf NInf = PInf"

fun fdiv :: "fl \<Rightarrow> fl \<Rightarrow> fl" where
  "fdiv (Fin a) (Fin b) =
     (if b \<noteq> 0 then Fin (a / b) else if a = 0 then NaN else if 0 < a then PInf else NInf)"
| "fdiv NaN y = NaN"
| "fdiv x NaN = NaN"
| "fdiv (Fin a) PInf = Fin 0"
| "fdiv (Fin a) NInf = Fin 0"
| "fdiv PInf (Fin b) = (if 0 \<le> b then PInf else NInf)"
| "fdiv NInf (Fin b) = (if 0 \<le> b then NInf else PInf)"
| "fdiv PInf PInf = NaN"
| "fdiv PInf NInf = NaN"
| "fdiv NInf PInf = NaN"
| "fdiv NInf NInf = NaN"

fun fabs :: "fl \<Rightarrow> fl" where
  "fabs (Fin a) = Fin \<bar>a\<bar>"
| "fabs PInf = PInf"
| "fabs NInf = PInf"
| "fabs NaN = NaN"

fun fsqrt :: "fl \<Rightarrow> fl" where
  "fsqrt (Fin a) = (if 0 \<le> a then Fin (sqrt a) else NaN)"
| "fsqrt PInf = PInf"
| "fsqrt NInf = NaN"
| "fsqrt NaN = NaN"

text \<open>\<open>flt x y\<close> is \<^verbatim>\<open>x < y\<close> and \<open>fle x y\<close> is \<^verbatim>\<open>x <= y\<close>; \<^verbatim>\<open>x > y\<close> is
  \<open>flt y x\<close>.\<close>

fun flt :: "fl \<Rightarrow> fl \<Rightarrow> bool" where
  "flt (Fin a) (Fin b) = (a < b)"
| "flt NaN y = False"
| "flt x NaN = False"
| "flt x NInf = False"
| "flt PInf y = False"
| "flt NInf y = True"
| "flt x PInf = True"

fun fle :: "fl \<Rightarrow> fl \<Rightarrow> bool" where
  "fle (Fin a) (Fin b) = (a \<le> b)"
| "fle NaN y = False"
| "fle x NaN = False"
| "fle NInf y = True"
| "fle x PInf = True"
| "fle x NInf = False"
| "fle PInf y = False"

text \<open>\<^verbatim>\<open>x != y\<close>: true as soon as one side is \<^verbatim>\<open>nan\<close>.\<close>

definition fne :: "fl \<Rightarrow> fl \<Rightarrow> bool" where
  "fne x y = (if x = NaN then True else if y = NaN then True else if x = y then False else True)"

text \<open>Python's builtins \<^verbatim>\<open>max(a, b)\<close> and \<^verbatim>\<open>min(a, b)\<close> keep the first argument
  unless the second compares greater (smaller), so a \<^verbatim>\<open>nan\<close> survives only in first
  place.\<close>

definition py_max :: "fl \<Rightarrow> fl \<Rightarrow> fl" where
  "py_max a b = (if flt a b then b else a)"

definition py_min :: "fl \<Rightarrow> fl \<Rightarrow> fl" where
  "py_min a b = (if flt b a then b else a)"

text \<open>\<^verbatim>\<open>np.maximum\<close> and \<^verbatim>\<open>np.minimum\<close> propagate \<^verbatim>\<open>nan\<close>.\<close>

definition np_maximum :: "fl \<Rightarrow> fl \<Rightarrow> fl" where
  "np_maximum a b = (if a = NaN \<or> b = NaN then NaN else if flt a b then b else a)"

definition np_minimum :: "fl \<Rightarrow> fl \<Rightarrow> fl" where
  "np_minimum a b = (if a = NaN \<or> b = NaN then NaN else if flt b a then b else a)"

text \<open>\<^verbatim>\<open>Series.min()\<close> and \<^verbatim>\<open>Series.max()\<close> of pandas on finite values: \<^verbatim>\<open>nan\<close> for
  an empty series.\<close>

definition series_min :: "real list \<Rightarrow> fl" where
  "series_min xs = (if xs = [] then NaN else Fin (Min (set xs)))"

definition series_max :: "real list \<Rightarrow> fl" where
  "series_max xs = (if xs = [] then NaN else Fin (Max (set xs)))"

section \<open>Data model\<close>

text \<open>
  One row of \<^verbatim>\<open>self.data\<close>: the bar (its timestamp is the index of the frame), the columns
  that TA-Lib fills in \<^verbatim>\<open>_calculate_indicators\<close> (they are \<^verbatim>\<open>nan\<close> during warm-up) and
  the three columns that \<^verbatim>\<open>_calculate_tsa_indicators\<close> writes.  The column \<^verbatim>\<open>open\<close> is
  named \<open>open_p\<close>.
\<close>

record row =
  date :: nat
  open_p :: real
  high :: real
  low :: real
  close :: real
  atr :: fl
  adx :: fl
  plus_di :: fl
  minus_di :: fl
  ema_fast :: fl
  ema_slow :: fl
  dyn_ema :: fl
  trend_speed :: real
  normalized_speed :: fl

text \<open>The strategy parameters that the modelled methods read.\<close>

record params =
  atr_multiplier :: real
  risk_reward_ratio :: real
  adx_threshold :: real
  max_length :: real
  accel_multiplier :: real
  collen :: nat

definition default_params :: params where
  "default_params = \<lparr>atr_multiplier = 3, risk_reward_ratio = 3 / 2, adx_threshold = 25,
     max_length = 50, accel_multiplier = 5, collen = 100\<rparr>"

text \<open>The dictionary appended to \<^verbatim>\<open>self.trades\<close>; the keys \<^verbatim>\<open>entry_price\<close>,
  \<^verbatim>\<open>position_size\<close>, \<^verbatim>\<open>stop_loss\<close> and \<^verbatim>\<open>take_profit\<close> carry the prefix \<open>t_\<close>.\<close>

record trade =
  entry_bar :: nat
  exit_bar :: nat
  t_entry_price :: real
  exit_price :: real
  t_position_size :: int
  pnl :: fl
  t_stop_loss :: fl
  t_take_profit :: fl
  entry_date :: nat
  exit_date :: nat

text \<open>The mutable fields of a \<^verbatim>\<open>TSAEnhancedStrategy\<close> instance.\<close>

record strategy =
  position_size :: int
  entry_price :: real
  stop_loss :: fl
  take_profit :: fl
  in_position :: bool
  trade_count :: nat
  win_count :: nat
  loss_count :: nat
  total_pnl :: fl
  trades :: "trade list"

section \<open>Position state machine\<close>

definition initialize_variables :: strategy where
  "initialize_variables = \<lparr>position_size = 0, entry_price = 0, stop_loss = Fin 0,
     take_profit = Fin 0, in_position = False, trade_count = 0, win_count = 0, loss_count = 0,
     total_pnl = Fin 0, trades = []\<rparr>"

definition tsa_green :: "row \<Rightarrow> bool" where
  "tsa_green r = (0 < trend_speed r \<and> flt (Fin (1 / 2)) (normalized_speed r))"

definition tsa_red :: "row \<Rightarrow> bool" where
  "tsa_red r = (trend_speed r < 0 \<and> flt (Fin (1 / 2)) (normalized_speed r))"

definition tsa_consolidation :: "row \<Rightarrow> bool" where
  "tsa_consolidation r = (\<bar>trend_speed r\<bar> < 1 / 10 \<or> flt (normalized_speed r) (Fin (3 / 10)))"

definition adx_long_filter :: "params \<Rightarrow> row \<Rightarrow> bool" where
  "adx_long_filter p r = (flt (minus_di r) (plus_di r) \<and> flt (Fin (adx_threshold p)) (adx r)
     \<and> flt (ema_slow r) (ema_fast r))"

definition adx_short_filter :: "params \<Rightarrow> row \<Rightarrow> bool" where
  "adx_short_filter p r = (flt (plus_di r) (minus_di r) \<and> flt (Fin (adx_threshold p)) (adx r)
     \<and> flt (ema_fast r) (ema_slow r))"

text \<open>The band \<^verbatim>\<open>current['atr'] * self.atr_multiplier\<close> and the two comparisons of the close
  with \<^verbatim>\<open>close - band\<close> and \<^verbatim>\<open>close + band\<close>, each result rounded as \<^verbatim>\<open>float64\<close>
  arithmetic rounds it.\<close>

definition atr_band :: "params \<Rightarrow> row \<Rightarrow> fl" where
  "atr_band p r = fl_round (fmul (atr r) (Fin (atr_multiplier p)))"

definition atr_long_confirmation :: "params \<Rightarrow> row \<Rightarrow> bool" where
  "atr_long_confirmation p r =
     flt (fl_round (fsub (Fin (close r)) (atr_band p r))) (Fin (close r))"

definition atr_short_confirmation :: "params \<Rightarrow> row \<Rightarrow> bool" where
  "atr_short_confirmation p r =
     flt (Fin (close r)) (fl_round (fadd (Fin (close r)) (atr_band p r)))"

definition long_condition :: "params \<Rightarrow> row \<Rightarrow> bool" where
  "long_condition p r = (flt (dyn_ema r) (Fin (close r)) \<and> tsa_green r \<and> adx_long_filter p r
     \<and> atr_long_confirmation p r \<and> \<not> tsa_consolidation r)"

definition short_condition :: "params \<Rightarrow> row \<Rightarrow> bool" where
  "short_condition p r = (flt (Fin (close r)) (dyn_ema r) \<and> tsa_red r \<and> adx_short_filter p r
     \<and> atr_short_confirmation p r \<and> \<not> tsa_consolidation r)"

definition check_entry_conditions :: "params \<Rightarrow> row list \<Rightarrow> strategy \<Rightarrow> nat \<Rightarrow> bool \<times> string" where
  "check_entry_conditions p data s i =
     (if i < 200 then (False, '''')
      else if long_condition p (data ! i) \<and> \<not> in_position s then (True, ''long'')
      else if short_condition p (data ! i) \<and> \<not> in_position s then (True, ''short'')
      else (False, ''''))"

definition check_exit_conditions :: "row list \<Rightarrow> strategy \<Rightarrow> nat \<Rightarrow> bool" where
  "check_exit_conditions data s i =
     (if \<not> in_position s then False
      else if 0 < position_size s
        then fle (Fin (low (data ! i))) (stop_loss s) \<or> fle (take_profit s) (Fin (high (data ! i)))
        else fle (stop_loss s) (Fin (high (data ! i))) \<or> fle (Fin (low (data ! i))) (take_profit s))"

definition enter_position :: "params \<Rightarrow> row list \<Rightarrow> strategy \<Rightarrow> nat \<Rightarrow> string \<Rightarrow> strategy" where
  "enter_position p data s i direction =
     (let current = data ! i;
          ep = close current;
          atr_value = atr current;
          sl = (if direction = ''long''
                then fsub (Fin ep) (fmul atr_value (Fin (atr_multiplier p)))
                else fadd (Fin ep) (fmul atr_value (Fin (atr_multiplier p))));
          tp = (if direction = ''long''
                then fadd (Fin ep) (fmul (fsub (Fin ep) sl) (Fin (risk_reward_ratio p)))
                else fsub (Fin ep) (fmul (fsub sl (Fin ep)) (Fin (risk_reward_ratio p))))
      in s\<lparr>entry_price := ep,
           position_size := (if direction = ''long'' then 1 else - 1),
           in_position := True,
           stop_loss := sl,
           take_profit := tp,
           trade_count := trade_count s + 1\<rparr>)"

definition exit_position :: "row list \<Rightarrow> strategy \<Rightarrow> nat \<Rightarrow> strategy" where
  "exit_position data s i =
     (if \<not> in_position s then s
      else
        let current = data ! i;
            xp = close current;
            pl = (if 0 < position_size s
                  then fdiv (Fin (xp - entry_price s)) (Fin (entry_price s))
                  else fdiv (Fin (entry_price s - xp)) (Fin (entry_price s)));
            t = \<lparr>entry_bar = nat (int i - int (length data) + int (length data)), exit_bar = i,
                 t_entry_price = entry_price s, exit_price = xp,
                 t_position_size = position_size s, pnl = pl,
                 t_stop_loss = stop_loss s, t_take_profit = take_profit s,
                 entry_date = date (data ! i), exit_date = date (data ! i)\<rparr>
        in s\<lparr>total_pnl := fadd (total_pnl s) pl,
             win_count := (if flt (Fin 0) pl then win_count s + 1 else win_count s),
             loss_count := (if flt (Fin 0) pl then loss_count s else loss_count s + 1),
             trades := trades s @ [t],
             in_position := False,
             position_size := 0\<rparr>)"

text \<open>One pass of the body of the loop of \<^verbatim>\<open>run_backtest\<close>, for bar \<open>i\<close>.\<close>

definition backtest_bar :: "params \<Rightarrow> row list \<Rightarrow> strategy \<Rightarrow> nat \<Rightarrow> strategy" where
  "backtest_bar p data s i =
     (let s1 = (if in_position s \<and> check_exit_conditions data s i
                then exit_position data s i else s)
      in if \<not> in_position s1
         then (case check_entry_conditions p data s1 i of
                 (should_enter, direction) \<Rightarrow>
                    if should_enter then enter_position p data s1 i direction else s1)
         else s1)"

fun backtest_loop :: "params \<Rightarrow> row list \<Rightarrow> nat list \<Rightarrow> strategy \<Rightarrow> strategy" where
  "backtest_loop p data [] s = s"
| "backtest_loop p data (i # is) s = backtest_loop p data is (backtest_bar p data s i)"

text \<open>The state of the strategy when \<^verbatim>\<open>run_backtest\<close> reaches
  \<^verbatim>\<open>_calculate_results\<close>: every bar processed, a remaining position closed on the last
  bar.\<close>

definition run_backtest :: "params \<Rightarrow> row list \<Rightarrow> strategy \<Rightarrow> strategy" where
  "run_backtest p data s =
     (let s1 = backtest_loop p data [0..<length data] s
      in if in_position s1 then exit_position data s1 (length data - 1) else s1)"

section \<open>Metrics reduction\<close>

text \<open>The dictionary \<^verbatim>\<open>self.results\<close>; the keys \<^verbatim>\<open>win_count\<close> and \<^verbatim>\<open>loss_count\<close>
  (prefix \<open>r_\<close>) are absent from the dictionary built for an empty trade list.\<close>

record results =
  total_trades :: nat
  win_rate :: real
  total_return :: fl
  profit_factor :: fl
  max_drawdown :: fl
  sharpe_ratio :: fl
  avg_trade :: fl
  gross_profit :: fl
  gross_loss :: fl
  r_win_count :: "nat option"
  r_loss_count :: "nat option"

definition py_sum :: "fl list \<Rightarrow> fl" where
  "py_sum xs = foldl fadd (Fin 0) xs"

fun np_cumsum_from :: "fl \<Rightarrow> fl list \<Rightarrow> fl list" where
  "np_cumsum_from acc [] = []"
| "np_cumsum_from acc (x # xs) = fadd acc x # np_cumsum_from (fadd acc x) xs"

fun np_cumsum :: "fl list \<Rightarrow> fl list" where
  "np_cumsum [] = []"
| "np_cumsum (x # xs) = x # np_cumsum_from x xs"

fun np_maximum_accumulate_from :: "fl \<Rightarrow> fl list \<Rightarrow> fl list" where
  "np_maximum_accumulate_from acc [] = []"
| "np_maximum_accumulate_from acc (x # xs) =
     np_maximum acc x # np_maximum_accumulate_from (np_maximum acc x) xs"

fun np_maximum_accumulate :: "fl list \<Rightarrow> fl list" where
  "np_maximum_accumulate [] = []"
| "np_maximum_accumulate (x # xs) = x # np_maximum_accumulate_from x xs"

text \<open>The exceptions of the modelled code.\<close>

datatype error = TypeError | ZeroDivisionError | ValueError

text \<open>\<^verbatim>\<open>np.min\<close> raises \<^verbatim>\<open>ValueError\<close> on an empty array.\<close>

definition np_min :: "fl list \<Rightarrow> error + fl" where
  "np_min xs = (if xs = [] then Inl ValueError else Inr (foldl np_minimum (hd xs) (tl xs)))"

text \<open>\<^verbatim>\<open>np.mean\<close> and \<^verbatim>\<open>np.std\<close> do not raise: on an empty array they give \<^verbatim>\<open>nan\<close>.\<close>

definition np_mean :: "fl list \<Rightarrow> fl" where
  "np_mean xs = fdiv (foldl fadd (Fin 0) xs) (Fin (real (length xs)))"

definition np_std :: "fl list \<Rightarrow> fl" where
  "np_std xs = (let m = np_mean xs
                in fsqrt (np_mean (map (\<lambda>x. fmul (fabs (fsub x m)) (fabs (fsub x m))) xs)))"

text \<open>The quotient of two Python integers raises \<^verbatim>\<open>ZeroDivisionError\<close> at a zero
  divisor.\<close>

definition py_int_div :: "nat \<Rightarrow> nat \<Rightarrow> error + real" where
  "py_int_div a b = (if b = 0 then Inl ZeroDivisionError else Inr (real a / real b))"

text \<open>The quotient \<^verbatim>\<open>gross_profit / gross_loss\<close>.  Each operand is the integer \<open>0\<close> that
  \<^verbatim>\<open>sum\<close> starts from when no trade contributes, and a numpy float otherwise; a zero divisor
  is taken to raise, as the integer does.\<close>

definition py_div :: "fl \<Rightarrow> fl \<Rightarrow> error + fl" where
  "py_div a b = (if b = Fin 0 then Inl ZeroDivisionError else Inr (fdiv a b))"

text \<open>\<^verbatim>\<open>_calculate_results\<close>: the dictionary it stores, or the exception it ends with.\<close>

definition calculate_results :: "strategy \<Rightarrow> error + results" where
  "calculate_results s =
     (if trades s = [] then
        Inr \<lparr>total_trades = 0, win_rate = 0, total_return = Fin 0, profit_factor = Fin 0,
             max_drawdown = Fin 0, sharpe_ratio = Fin 0, avg_trade = Fin 0, gross_profit = Fin 0,
             gross_loss = Fin 0, r_win_count = None, r_loss_count = None\<rparr>
      else
        let n = length (trades s);
            returns = map pnl (trades s);
            gp = py_sum (filter (\<lambda>x. flt (Fin 0) x) returns);
            gl = fabs (py_sum (filter (\<lambda>x. flt x (Fin 0)) returns));
            cumulative_returns = np_cumsum returns;
            running_max = np_maximum_accumulate cumulative_returns;
            drawdown = map (\<lambda>(c, m). fsub c m) (zip cumulative_returns running_max);
            sr = (if flt (Fin 0) (np_std returns) then fdiv (np_mean returns) (np_std returns)
                  else Fin 0);
            av = (if returns \<noteq> [] then np_mean returns else Fin 0)
        in case (if 0 < n then py_int_div (win_count s) n else Inr 0) of
             Inl e \<Rightarrow> Inl e
           | Inr wr \<Rightarrow>
              (case (if flt (Fin 0) gl then py_div gp gl else Inr PInf) of
                 Inl e \<Rightarrow> Inl e
               | Inr pf \<Rightarrow>
                  (case (if 0 < length drawdown then np_min drawdown else Inr (Fin 0)) of
                     Inl e \<Rightarrow> Inl e
                   | Inr m \<Rightarrow>
                      Inr \<lparr>total_trades = n, win_rate = wr, total_return = total_pnl s,
                           profit_factor = pf,
                           max_drawdown = (if 0 < length drawdown then fabs m else Fin 0),
                           sharpe_ratio = sr, avg_trade = av, gross_profit = gp,
                           gross_loss = gl, r_win_count = Some (win_count s),
                           r_loss_count = Some (loss_count s)\<rparr>)))"

section \<open>Trend speed analysis\<close>

text \<open>\<^verbatim>\<open>counts_diff.rolling(200).apply(lambda x: np.abs(x).max())\<close>: the series of the
  largest absolute value among the 200 rows ending at each row, \<^verbatim>\<open>nan\<close> where fewer than
  200 rows are available.\<close>

definition rolling_max_abs :: "real list \<Rightarrow> fl list" where
  "rolling_max_abs xs =
     map (\<lambda>i. if i < 199 then NaN
              else series_max (map abs (take 200 (drop (i - 199) xs)))) [0..<length xs]"

definition dyn_length :: "params \<Rightarrow> real list \<Rightarrow> fl list" where
  "dyn_length p counts_diff =
     map (\<lambda>i. let max_abs_counts_diff = rolling_max_abs counts_diff ! i;
                  counts_diff_norm = fdiv (fadd (Fin (counts_diff ! i)) max_abs_counts_diff)
                                          (fmul (Fin 2) max_abs_counts_diff)
              in fadd (Fin 5) (fmul counts_diff_norm (Fin (max_length p - 5))))
       [0..<length counts_diff]"

text \<open>The variables of the loop of \<^verbatim>\<open>_calculate_tsa_indicators\<close>, with the frame it
  writes to.\<close>

record tsa_state =
  data :: "row list"
  prev_counts_diff :: real
  dyn_ema_prev :: fl
  speed :: real
  pos :: int
  x1 :: nat
  y1 :: real

definition accel_factor :: "real list \<Rightarrow> real \<Rightarrow> nat \<Rightarrow> fl" where
  "accel_factor counts_diff prev i =
     (let current_counts_diff = counts_diff ! i;
          delta_counts_diff = \<bar>current_counts_diff - prev\<bar>;
          max_delta_counts_diff = py_max (rolling_max_abs counts_diff ! i) (Fin 1)
      in fdiv (Fin delta_counts_diff) max_delta_counts_diff)"

definition tsa_alpha :: "params \<Rightarrow> real list \<Rightarrow> real \<Rightarrow> nat \<Rightarrow> fl" where
  "tsa_alpha p counts_diff prev i =
     (let alpha_base = fdiv (Fin 2) (fadd (dyn_length p counts_diff ! i) (Fin 1));
          alpha = fmul alpha_base
                    (fadd (Fin 1) (fmul (accel_factor counts_diff prev i) (Fin (accel_multiplier p))))
      in py_min (Fin 1) alpha)"

definition tsa_dyn_ema :: "params \<Rightarrow> tsa_state \<Rightarrow> nat \<Rightarrow> fl" where
  "tsa_dyn_ema p s i =
     (let alpha = tsa_alpha p (map close (data s)) (prev_counts_diff s) i;
          current_close = close (data s ! i)
      in fadd (fmul alpha (Fin current_close)) (fmul (fsub (Fin 1) alpha) (dyn_ema_prev s)))"

text \<open>The two tests of the trend direction detection; \<open>de\<close> is the local \<^verbatim>\<open>dyn_ema\<close> of
  bar \<open>i\<close>.\<close>

definition bullish_crossover :: "row list \<Rightarrow> nat \<Rightarrow> fl \<Rightarrow> bool" where
  "bullish_crossover d i de =
     (flt de (Fin (close (d ! i))) \<and> fle (Fin (close (d ! (i - 1)))) de)"

definition bearish_crossover :: "row list \<Rightarrow> nat \<Rightarrow> fl \<Rightarrow> bool" where
  "bearish_crossover d i de =
     (\<not> bullish_crossover d i de \<and> flt (Fin (close (d ! i))) de \<and> fle de (Fin (close (d ! (i - 1)))))"

text \<open>Trend direction detection and the update of the speed, for a bar \<open>i \<ge> 1\<close>.  The
  difference \<^verbatim>\<open>current_close - current_open\<close> and the sum of \<^verbatim>\<open>speed += \<dots>\<close> are rounded
  as \<^verbatim>\<open>float64\<close> arithmetic rounds them.\<close>

definition update_speed :: "tsa_state \<Rightarrow> nat \<Rightarrow> fl \<Rightarrow> tsa_state" where
  "update_speed s i de =
     (let current_close = close (data s ! i);
          current_open = open_p (data s ! i);
          s1 = (if bullish_crossover (data s) i de
                then s\<lparr>x1 := i, y1 := current_close, pos := 1,
                       speed := round64 (current_close - current_open)\<rparr>
                else if bearish_crossover (data s) i de
                then s\<lparr>x1 := i, y1 := current_close, pos := - 1,
                       speed := round64 (current_close - current_open)\<rparr>
                else s)
      in s1\<lparr>speed := round64 (speed s1 + round64 (current_close - current_open))\<rparr>)"

text \<open>\<^verbatim>\<open>np.average(a, weights=w)\<close> raises \<^verbatim>\<open>TypeError\<close> when the two shapes differ
  and \<^verbatim>\<open>ZeroDivisionError\<close> when the weights sum to zero.\<close>

definition np_average :: "real list \<Rightarrow> real list \<Rightarrow> error + real" where
  "np_average a w =
     (if length a \<noteq> length w then Inl TypeError
      else if sum_list w = 0 then Inl ZeroDivisionError
      else Inr (sum_list (map (\<lambda>(x, y). x * y) (zip a w)) / sum_list w))"

text \<open>
  \<^verbatim>\<open>_calculate_hma\<close>.  Python reads \<^verbatim>\<open>-period//2\<close> as \<^verbatim>\<open>(-period)//2\<close>, rounded towards
  minus infinity, so \<^verbatim>\<open>values[-period//2:]\<close> holds the last \<open>(period + 1) div 2\<close> values,
  while the weights \<^verbatim>\<open>range(1, period//2+1)\<close> are \<open>period div 2\<close> many.
\<close>

definition calculate_hma :: "row list \<Rightarrow> real \<Rightarrow> nat \<Rightarrow> nat \<Rightarrow> error + real" where
  "calculate_hma d v period current_idx =
     (if int current_idx < int period - 1 then Inr v
      else
        let start_idx = current_idx + 1 - period;
            vals = map trend_speed (drop start_idx (take (current_idx + 1) d))
        in if length vals < period then Inr v
           else
             (case np_average (drop (length vals - (period + 1) div 2) vals)
                     (map real [1..<period div 2 + 1]) of
                Inl e \<Rightarrow> Inl e
              | Inr wma_half \<Rightarrow>
                 (case np_average vals (map real [1..<period + 1]) of
                    Inl e \<Rightarrow> Inl e
                  | Inr wma_full \<Rightarrow> Inr (2 * wma_half - wma_full))))"

text \<open>The normalisation of the speed of bar \<open>i\<close>, read from the frame after
  \<^verbatim>\<open>trend_speed\<close> of bar \<open>i\<close> has been written.\<close>

definition speed_window :: "params \<Rightarrow> row list \<Rightarrow> nat \<Rightarrow> real list" where
  "speed_window p d i = map trend_speed (drop (i + 1 - collen p) (take (i + 1) d))"

definition normalize_speed :: "params \<Rightarrow> row list \<Rightarrow> nat \<Rightarrow> real \<Rightarrow> fl" where
  "normalize_speed p d i ts =
     (if collen p \<le> i then
        let min_speed = series_min (speed_window p d i);
            max_speed = series_max (speed_window p d i)
        in if fne max_speed min_speed
           then fdiv (fsub (Fin ts) min_speed) (fsub max_speed min_speed)
           else Fin (1 / 2)
      else Fin (1 / 2))"

text \<open>The three assignments \<^verbatim>\<open>self.data.iloc[i, self.data.columns.get_loc(c)] = v\<close>.\<close>

definition set_dyn_ema :: "row list \<Rightarrow> nat \<Rightarrow> fl \<Rightarrow> row list" where
  "set_dyn_ema d i v = d[i := (d ! i)\<lparr>dyn_ema := v\<rparr>]"

definition set_trend_speed :: "row list \<Rightarrow> nat \<Rightarrow> real \<Rightarrow> row list" where
  "set_trend_speed d i v = d[i := (d ! i)\<lparr>trend_speed := v\<rparr>]"

definition set_normalized_speed :: "row list \<Rightarrow> nat \<Rightarrow> fl \<Rightarrow> row list" where
  "set_normalized_speed d i v = d[i := (d ! i)\<lparr>normalized_speed := v\<rparr>]"

text \<open>One pass of the body of the loop, for bar \<open>i\<close>.\<close>

definition tsa_iter :: "params \<Rightarrow> tsa_state \<Rightarrow> nat \<Rightarrow> error + tsa_state" where
  "tsa_iter p s i =
     (if i = 0 then
        Inr (s\<lparr>x1 := i, y1 := open_p (data s ! i), dyn_ema_prev := Fin (close (data s ! i)),
               data := set_dyn_ema (data s) i (Fin (close (data s ! i)))\<rparr>)
      else
        let current_counts_diff = map close (data s) ! i;
            de = tsa_dyn_ema p s i;
            s2 = update_speed (s\<lparr>data := set_dyn_ema (data s) i de\<rparr>) i de
        in case calculate_hma (data s2) (speed s2) 5 i of
             Inl e \<Rightarrow> Inl e
           | Inr ts \<Rightarrow>
              let d3 = set_trend_speed (data s2) i ts;
                  ns = normalize_speed p d3 i ts
              in Inr (s2\<lparr>data := set_normalized_speed d3 i ns,
                        prev_counts_diff := current_counts_diff, dyn_ema_prev := de\<rparr>))"

fun tsa_loop :: "params \<Rightarrow> nat list \<Rightarrow> tsa_state \<Rightarrow> error + tsa_state" where
  "tsa_loop p [] s = Inr s"
| "tsa_loop p (i # is) s =
     (case tsa_iter p s i of Inl e \<Rightarrow> Inl e | Inr s' \<Rightarrow> tsa_loop p is s')"

text \<open>The state in which the loop starts: the three columns set to \<^verbatim>\<open>0.0\<close>.\<close>

definition tsa_init :: "row list \<Rightarrow> tsa_state" where
  "tsa_init d =
     \<lparr>data = map (\<lambda>r. r\<lparr>dyn_ema := Fin 0, trend_speed := 0, normalized_speed := Fin 0\<rparr>) d,
      prev_counts_diff = 0, dyn_ema_prev = Fin 0, speed = 0, pos = 0, x1 = 0, y1 = 0\<rparr>"

text \<open>\<^verbatim>\<open>_calculate_tsa_indicators\<close>: the frame with its three columns filled, or the
  exception that ends the computation.\<close>

definition calculate_tsa_indicators :: "params \<Rightarrow> row list \<Rightarrow> error + row list" where
  "calculate_tsa_indicators p d =
     (case tsa_loop p [0..<length d] (tsa_init d) of Inl e \<Rightarrow> Inl e | Inr s \<Rightarrow> Inr (data s))"

text \<open>The state of the loop with the frame cut to its first \<open>k\<close> rows.\<close>

definition truncate_frame :: "nat \<Rightarrow> tsa_state \<Rightarrow> tsa_state" where
  "truncate_frame k s = s\<lparr>data := take k (data s)\<rparr>"

section \<open>Sample frames for the trend speed analysis\<close>

text \<open>A bar given by its timestamp, open and close; the TA-Lib columns are in warm-up and the
  three computed columns are not written yet.\<close>

definition price_row :: "nat \<Rightarrow> real \<Rightarrow> real \<Rightarrow> row" where
  "price_row t o_p c =
     \<lparr>date = t, open_p = o_p, high = max o_p c, low = min o_p c, close = c, atr = NaN, adx = NaN,
      plus_di = NaN, minus_di = NaN, ema_fast = NaN, ema_slow = NaN,
      dyn_ema = Fin 0, trend_speed = 0, normalized_speed = Fin 0\<rparr>"

definition one_bar :: "row list" where
  "one_bar = [price_row 0 100 101]"

definition two_bars :: "row list" where
  "two_bars = [price_row 0 100 100, price_row 1 100 102]"

definition three_bars :: "row list" where
  "three_bars = [price_row 0 100 100, price_row 1 100 102, price_row 2 102 101]"

text \<open>The default parameters with a normalisation window of two bars.\<close>

definition short_window :: params where
  "short_window = default_params\<lparr>collen := 2\<rparr>"

definition three_bars_out :: "row list" where
  "three_bars_out =
     [(price_row 0 100 100)\<lparr>dyn_ema := Fin 100\<rparr>,
      (price_row 1 100 102)\<lparr>dyn_ema := Fin 102, trend_speed := 2, normalized_speed := Fin (1 / 2)\<rparr>,
      (price_row 2 102 101)\<lparr>dyn_ema := Fin 101, trend_speed := 1, normalized_speed := Fin 0\<rparr>]"

text \<open>A frame of 200 bars: 199 bars that open and close at 100, with the adaptive average at
  100 as well, and a last bar that opens at 100 and closes at 110.\<close>

definition settled_row :: "nat \<Rightarrow> real \<Rightarrow> row" where
  "settled_row t c = (price_row t c c)\<lparr>dyn_ema := Fin c\<rparr>"

definition jump_data :: "row list" where
  "jump_data = map (\<lambda>t. settled_row t 100) [0..<199] @ [price_row 199 100 110]"





text \<open>A frame of 101 rows that fills the default window of 100 bars at its last row: the
  speed is 0 on the first hundred rows and 1 on the last.\<close>

definition full_window :: "row list" where
  "full_window =
     map (\<lambda>t. price_row t 100 100) [0..<100] @ [(price_row 100 100 101)\<lparr>trend_speed := 1\<rparr>]"

section \<open>Invariants of the strategy state\<close>

text \<open>The flag \<^verbatim>\<open>in_position\<close> and the signed size agree: in a position the size is
  \<open>1\<close> (long) or \<open>- 1\<close> (short), flat it is \<open>0\<close>.\<close>

definition position_consistent :: "strategy \<Rightarrow> bool" where
  "position_consistent s =
     ((in_position s \<longleftrightarrow> position_size s = 1 \<or> position_size s = - 1)
      \<and> (\<not> in_position s \<longleftrightarrow> position_size s = 0))"

text \<open>The two counters account for every recorded trade, the wins being the trades of
  strictly positive result.\<close>

definition counts_consistent :: "strategy \<Rightarrow> bool" where
  "counts_consistent s =
     (win_count s + loss_count s = length (trades s)
      \<and> win_count s = length (filter (\<lambda>t. flt (Fin 0) (pnl t)) (trades s)))"

section \<open>A sample run\<close>

text \<open>A frame of 202 rows whose filters all favour a long entry: 201 flat bars at 100 and a
  last bar that rises to 105.  The first bar after the warm-up is bar 200.\<close>

definition trending_row :: "nat \<Rightarrow> real \<Rightarrow> real \<Rightarrow> real \<Rightarrow> row" where
  "trending_row t h l c =
     \<lparr>date = t, open_p = 100, high = h, low = l, close = c, atr = Fin 1, adx = Fin 30,
      plus_di = Fin 30, minus_di = Fin 10, ema_fast = Fin 101, ema_slow = Fin 100,
      dyn_ema = Fin 99, trend_speed = 1, normalized_speed = Fin (4 / 5)\<rparr>"

definition sample_data :: "row list" where
  "sample_data = map (\<lambda>t. trending_row t 100 100 100) [0..<201] @ [trending_row 201 105 100 105]"

definition long_at_100 :: strategy where
  "long_at_100 = \<lparr>position_size = 1, entry_price = 100, stop_loss = Fin 97,
     take_profit = Fin (209 / 2), in_position = True, trade_count = 1, win_count = 0,
     loss_count = 0, total_pnl = Fin 0, trades = []\<rparr>"

definition first_trade :: trade where
  "first_trade = \<lparr>entry_bar = 201, exit_bar = 201, t_entry_price = 100, exit_price = 105,
     t_position_size = 1, pnl = Fin (1 / 20), t_stop_loss = Fin 97, t_take_profit = Fin (209 / 2),
     entry_date = 201, exit_date = 201\<rparr>"

definition long_at_105 :: strategy where
  "long_at_105 = \<lparr>position_size = 1, entry_price = 105, stop_loss = Fin 102,
     take_profit = Fin (219 / 2), in_position = True, trade_count = 2, win_count = 1,
     loss_count = 0, total_pnl = Fin (1 / 20), trades = [first_trade]\<rparr>"

definition second_trade :: trade where
  "second_trade = \<lparr>entry_bar = 201, exit_bar = 201, t_entry_price = 105, exit_price = 105,
     t_position_size = 1, pnl = Fin 0, t_stop_loss = Fin 102, t_take_profit = Fin (219 / 2),
     entry_date = 201, exit_date = 201\<rparr>"

text \<open>A state with one winning and one losing trade on record.\<close>

definition win_and_loss :: strategy where
  "win_and_loss = \<lparr>position_size = 0, entry_price = 100, stop_loss = Fin 97,
     take_profit = Fin (209 / 2), in_position = False, trade_count = 2, win_count = 1,
     loss_count = 1, total_pnl = Fin (1 / 40),
     trades = [first_trade, first_trade\<lparr>exit_price := 195 / 2, pnl := Fin (- (1 / 40))\<rparr>]\<rparr>"

text \<open>A bar at 100 with every other filter in favour of a long entry and an average true range
  of \<open>2\<^sup>-\<^sup>5\<^sup>0\<close>: the band of the default multiplier 3 is below half the distance from 100 to
  its neighbouring \<^verbatim>\<open>float64\<close> numbers.\<close>

definition small_atr :: real where
  "small_atr = 1 / 2 ^ 50"

definition tiny_band_row :: row where
  "tiny_band_row = (trending_row 200 100 100 100)\<lparr>atr := Fin small_atr\<rparr>"

section \<open>Properties of the rounding\<close>

lemma rne_error: "\<bar>of_int (rne x) - x\<bar> \<le> 1 / 2"
  unfolding rne_def Let_def by (auto; linarith)

lemma rne_near:
  assumes "\<bar>x - of_int n\<bar> < 1 / 2"
  shows "rne x = n"
proof -
  have "\<bar>(of_int (rne x) :: real) - of_int n\<bar> < 1"
    using assms rne_error [of x] by linarith
  then have "\<bar>rne x - n\<bar> < 1"
    by (metis of_int_diff of_int_abs of_int_less_1_iff)
  then show ?thesis
    by simp
qed

lemma floor_log2_eq:
  assumes "2 powr of_int e \<le> x" and "x < 2 powr (of_int e + 1)"
  shows "\<lfloor>log 2 x\<rfloor> = e"
proof -
  have pos: "0 < x"
    using assms(1) by (smt (verit) powr_gt_zero)
  have "of_int e \<le> log 2 x"
    using assms(1) pos by (simp add: le_log_iff)
  moreover have "log 2 x < of_int e + 1"
    using assms(2) pos by (simp add: log_less_iff)
  ultimately show ?thesis
    by (simp add: floor_eq_iff)
qed

text \<open>The value of \<open>round64\<close> at a number whose binade and nearest multiple are known.\<close>

lemma round64_near:
  assumes "2 powr of_int e \<le> \<bar>x\<bar>" and "\<bar>x\<bar> < 2 powr (of_int e + 1)"
    and "u = 2 powr (of_int e - 52)" and "\<bar>x / u - of_int n\<bar> < 1 / 2"
  shows "round64 x = u * of_int n"
proof -
  have "x \<noteq> 0"
    using assms(1) by (smt (verit) powr_gt_zero)
  moreover have "\<lfloor>log 2 \<bar>x\<bar>\<rfloor> = e"
    using assms(1,2) by (rule floor_log2_eq)
  ultimately show ?thesis
    using assms(3,4) by (simp add: round64_def rne_near)
qed

text \<open>The relative error of rounding is at most \<open>2\<^sup>-\<^sup>5\<^sup>3\<close>.\<close>

lemma round64_error: "\<bar>round64 x - x\<bar> \<le> \<bar>x\<bar> / 2 ^ 53"
proof (cases "x = 0")
  case True
  then show ?thesis
    by (simp add: round64_def)
next
  case False
  define e where "e = \<lfloor>log 2 \<bar>x\<bar>\<rfloor>"
  define u :: real where "u = 2 powr (of_int e - 52)"
  have u: "0 < u"
    by (simp add: u_def)
  have r: "round64 x = u * of_int (rne (x / u))"
    using False by (simp add: round64_def e_def u_def Let_def)
  have "of_int e \<le> log 2 \<bar>x\<bar>"
    by (simp add: e_def)
  then have "2 powr of_int e \<le> \<bar>x\<bar>"
    using False by (simp add: le_log_iff)
  then have ux: "u * 2 ^ 52 \<le> \<bar>x\<bar>"
    by (simp add: u_def powr_diff)
  have "u * (of_int (rne (x / u)) - x / u) = round64 x - x"
    using u by (simp add: r right_diff_distrib)
  then have "\<bar>round64 x - x\<bar> = \<bar>u\<bar> * \<bar>of_int (rne (x / u)) - x / u\<bar>"
    by (simp only: abs_mult [symmetric])
  then have "\<bar>round64 x - x\<bar> = u * \<bar>of_int (rne (x / u)) - x / u\<bar>"
    using u by simp
  also have "\<dots> \<le> u * (1 / 2)"
    using u rne_error [of "x / u"] by (intro mult_left_mono) simp_all
  also have "\<dots> \<le> \<bar>x\<bar> / 2 ^ 53"
    using ux by simp
  finally show ?thesis .
qed

lemma round64_int:
  "round64 0 = 0" "round64 1 = 1" "round64 2 = 2" "round64 3 = 3" "round64 (- 1) = - 1"
proof -
  show "round64 0 = 0"
    by (simp add: round64_def)
  show "round64 1 = 1"
    using round64_near [of 0 1 "1 / 2 ^ 52" "2 ^ 52"] by (simp add: powr_neg_numeral)
  show "round64 2 = 2"
    using round64_near [of 1 2 "1 / 2 ^ 51" "2 ^ 52"] by (simp add: powr_neg_numeral)
  show "round64 3 = 3"
    using round64_near [of 1 3 "1 / 2 ^ 51" "3 * 2 ^ 51"] by (simp add: powr_neg_numeral)
  show "round64 (- 1) = - 1"
    using round64_near [of 0 "- 1" "1 / 2 ^ 52" "- (2 ^ 52)"] by (simp add: powr_neg_numeral)
qed


lemma round64_small_atr:
  "round64 (small_atr * 3) = small_atr * 3"
  "round64 (100 - small_atr * 3) = 100"
  "round64 (100 + small_atr * 3) = 100"
proof -
  show "round64 (small_atr * 3) = small_atr * 3"
    unfolding small_atr_def
    using round64_near [of "- 49" "3 / 2 ^ 50" "1 / 2 ^ 101" "3 * 2 ^ 51"]
    by (simp add: powr_neg_numeral)
  show "round64 (100 - small_atr * 3) = 100"
    unfolding small_atr_def
    using round64_near [of 6 "100 - 3 / 2 ^ 50" "1 / 2 ^ 46" "100 * 2 ^ 46"]
    by (simp add: powr_neg_numeral)
  show "round64 (100 + small_atr * 3) = 100"
    unfolding small_atr_def
    using round64_near [of 6 "100 + 3 / 2 ^ 50" "1 / 2 ^ 46" "100 * 2 ^ 46"]
    by (simp add: powr_neg_numeral)
qed

text \<open>A band of at least \<open>2\<^sup>-\<^sup>5\<^sup>2\<close> times the close is not absorbed.\<close>

lemma band_not_absorbed:
  assumes "0 < b" and "\<bar>c\<bar> / 2 ^ 52 \<le> b"
  shows "round64 (c - b) < c" and "c < round64 (c + b)"
proof -
  have lo: "round64 (c - b) \<le> (c - b) + \<bar>c - b\<bar> / 2 ^ 53"
    using round64_error [of "c - b"] by linarith
  have hi: "(c + b) - \<bar>c + b\<bar> / 2 ^ 53 \<le> round64 (c + b)"
    using round64_error [of "c + b"] by linarith
  have half: "\<bar>c\<bar> / 2 ^ 53 \<le> b / 2"
    using assms(2) by simp
  have "\<bar>c - b\<bar> / 2 ^ 53 \<le> \<bar>c\<bar> / 2 ^ 53 + b / 2 ^ 53"
    using assms(1) by (simp add: add_divide_distrib [symmetric] divide_right_mono)
  moreover have "\<bar>c + b\<bar> / 2 ^ 53 \<le> \<bar>c\<bar> / 2 ^ 53 + b / 2 ^ 53"
    using assms(1) by (simp add: add_divide_distrib [symmetric] divide_right_mono)
  moreover have "b / 2 ^ 53 < b / 2"
    using assms(1) by (simp add: divide_strict_left_mono)
  ultimately show "round64 (c - b) < c" and "c < round64 (c + b)"
    using lo hi half by linarith+
qed

section \<open>Properties of the position state machine\<close>

lemma enter_position_consistent: "position_consistent (enter_position p d s i dir)"
  by (simp add: enter_position_def position_consistent_def Let_def)

lemma exit_position_consistent:
  "position_consistent s \<Longrightarrow> position_consistent (exit_position d s i)"
  by (auto simp add: exit_position_def position_consistent_def Let_def)

lemma backtest_bar_consistent:
  "position_consistent s \<Longrightarrow> position_consistent (backtest_bar p d s i)"
  by (simp add: backtest_bar_def Let_def exit_position_consistent enter_position_consistent
      split: prod.splits)

lemma backtest_loop_consistent:
  "position_consistent s \<Longrightarrow> position_consistent (backtest_loop p d js s)"
  by (induction js arbitrary: s) (simp_all add: backtest_bar_consistent)

lemma enter_position_counts:
  "counts_consistent s \<Longrightarrow> counts_consistent (enter_position p d s i dir)"
  by (simp add: enter_position_def counts_consistent_def Let_def)

lemma exit_position_counts: "counts_consistent s \<Longrightarrow> counts_consistent (exit_position d s i)"
  by (simp add: exit_position_def counts_consistent_def Let_def)

lemma backtest_bar_counts: "counts_consistent s \<Longrightarrow> counts_consistent (backtest_bar p d s i)"
  by (simp add: backtest_bar_def Let_def exit_position_counts enter_position_counts
      split: prod.splits)

lemma backtest_loop_counts:
  "counts_consistent s \<Longrightarrow> counts_consistent (backtest_loop p d js s)"
  by (induction js arbitrary: s) (simp_all add: backtest_bar_counts)

lemma backtest_loop_append:
  "backtest_loop p d (js @ ks) s = backtest_loop p d ks (backtest_loop p d js s)"
  by (induction js arbitrary: s) simp_all

text \<open>No bar of the warm-up changes a flat state.\<close>

lemma backtest_loop_warm_up:
  "\<forall>j\<in>set js. j < 200 \<Longrightarrow> \<not> in_position s \<Longrightarrow> backtest_loop p d js s = s"
  by (induction js) (simp_all add: backtest_bar_def check_entry_conditions_def)

subsection \<open>The sample run, bar by bar\<close>

lemma sample_data_nth:
  "i < 201 \<Longrightarrow> sample_data ! i = trending_row i 100 100 100"
  "sample_data ! 201 = trending_row 201 105 100 105"
  "length sample_data = 202"
  by (simp_all add: sample_data_def nth_append)

lemma atr_band_trending:
  "atr_band default_params (trending_row t h l c) = Fin 3"
  by (simp add: atr_band_def trending_row_def default_params_def round64_int)

lemma long_condition_trending:
  assumes "99 < c" and "c \<le> 1000"
  shows "long_condition default_params (trending_row t h l c)"
proof -
  have "round64 (c - 3) < c"
    using assms by (intro band_not_absorbed) simp_all
  then have "atr_long_confirmation default_params (trending_row t h l c)"
    by (simp add: atr_long_confirmation_def atr_band_trending fsub_def)
       (simp add: trending_row_def)
  then show ?thesis
    using assms
    by (simp add: long_condition_def)
       (simp add: trending_row_def tsa_green_def adx_long_filter_def tsa_consolidation_def
          default_params_def)
qed

lemma after_bar_200:
  "backtest_loop default_params sample_data [0..<201] initialize_variables = long_at_100"
proof -
  have "[0..<Suc 200] = [0..<200] @ [200]"
    by (rule upt_Suc_append) simp
  then have split: "[0..<201] = [0..<200] @ [200]"
    by simp
  have flat: "backtest_loop default_params sample_data [0..<200] initialize_variables
      = initialize_variables"
    by (rule backtest_loop_warm_up) (simp_all add: initialize_variables_def)
  have "backtest_bar default_params sample_data initialize_variables 200
      = enter_position default_params sample_data initialize_variables 200 ''long''"
    by (simp add: backtest_bar_def check_entry_conditions_def sample_data_nth
        long_condition_trending initialize_variables_def)
  also have "\<dots> = long_at_100"
    by (simp add: enter_position_def Let_def sample_data_nth trending_row_def default_params_def
        fsub_def long_at_100_def initialize_variables_def)
  finally show ?thesis
    by (simp add: split backtest_loop_append flat)
qed

lemma exit_bar_201: "check_exit_conditions sample_data long_at_100 201"
  by (simp add: check_exit_conditions_def long_at_100_def sample_data_nth trending_row_def)

lemma exit_position_201:
  "exit_position sample_data long_at_100 201
     = long_at_100\<lparr>total_pnl := Fin (1 / 20), win_count := 1, trades := [first_trade],
         in_position := False, position_size := 0\<rparr>"
  by (simp add: exit_position_def Let_def long_at_100_def sample_data_nth first_trade_def
      trending_row_def)

lemma bar_201: "backtest_bar default_params sample_data long_at_100 201 = long_at_105"
proof -
  have "backtest_bar default_params sample_data long_at_100 201
      = enter_position default_params sample_data
          (exit_position sample_data long_at_100 201) 201 ''long''"
    by (simp add: backtest_bar_def exit_bar_201 exit_position_201)
       (simp add: long_at_100_def check_entry_conditions_def sample_data_nth
          long_condition_trending)
  also have "\<dots> = long_at_105"
    by (simp add: exit_position_201)
       (simp add: long_at_100_def enter_position_def Let_def sample_data_nth trending_row_def
          default_params_def fsub_def long_at_105_def)
  finally show ?thesis .
qed

lemma run_sample:
  "run_backtest default_params sample_data initialize_variables
     = long_at_105\<lparr>loss_count := 1, trades := [first_trade, second_trade],
         in_position := False, position_size := 0\<rparr>"
proof -
  have "[0..<Suc 201] = [0..<201] @ [201]"
    by (rule upt_Suc_append) simp
  then have "[0..<202] = [0..<201] @ [201]"
    by simp
  then have "backtest_loop default_params sample_data [0..<length sample_data]
      initialize_variables = long_at_105"
    by (simp add: sample_data_nth backtest_loop_append after_bar_200 bar_201)
  then show ?thesis
    by (simp add: run_backtest_def Let_def)
       (simp add: long_at_105_def exit_position_def Let_def sample_data_nth second_trade_def
          trending_row_def)
qed

subsection \<open>The flag and the size of the position\<close>

text \<open>
  Claim C5.  The flag \<^verbatim>\<open>in_position\<close> and \<^verbatim>\<open>position_size\<close> agree at every point of a
  run: the flag is set exactly when the size is \<open>1\<close> or \<open>- 1\<close> and cleared exactly when it
  is \<open>0\<close>, so one position of one direction is open at most.  The initial state satisfies
  this, and entering, exiting, one bar of the loop, any number of bars and the whole of
  \<^verbatim>\<open>run_backtest\<close> preserve it.
\<close>
theorem position_flag_agrees:
  assumes "position_consistent s"
  shows "position_consistent initialize_variables
    \<and> position_consistent (enter_position p d s i dir)
    \<and> position_consistent (exit_position d s i)
    \<and> position_consistent (backtest_bar p d s i)
    \<and> position_consistent (backtest_loop p d js s)
    \<and> position_consistent (run_backtest p d s)"
proof -
  have "position_consistent initialize_variables"
    by (simp add: position_consistent_def initialize_variables_def)
  moreover have "position_consistent (run_backtest p d s)"
    using assms
    by (simp add: run_backtest_def Let_def backtest_loop_consistent exit_position_consistent)
  ultimately show ?thesis
    using assms
    by (simp add: enter_position_consistent exit_position_consistent backtest_bar_consistent
        backtest_loop_consistent)
qed

theorem position_flag_agrees_witness:
  "position_consistent long_at_100
    \<and> position_consistent (exit_position sample_data long_at_100 201)
    \<and> position_consistent (backtest_bar default_params sample_data long_at_100 201)
    \<and> position_consistent (run_backtest default_params sample_data long_at_100)"
proof -
  have h: "position_consistent long_at_100"
    by (simp add: position_consistent_def long_at_100_def)
  show ?thesis
    using h position_flag_agrees [OF h, of default_params sample_data 201]
    by simp
qed

subsection \<open>Wins and losses\<close>

lemma exit_position_win_count:
  "in_position s \<Longrightarrow> win_count (exit_position d s i)
     = (if flt (Fin 0) (pnl (last (trades (exit_position d s i)))) then win_count s + 1
        else win_count s)"
  by (simp add: exit_position_def Let_def)

lemma exit_position_loss_count:
  "in_position s \<Longrightarrow> loss_count (exit_position d s i)
     = (if flt (Fin 0) (pnl (last (trades (exit_position d s i)))) then loss_count s
        else loss_count s + 1)"
  by (simp add: exit_position_def Let_def)

text \<open>
  Claim C10.  A closed trade whose result is exactly zero is counted as a loss: it raises
  \<^verbatim>\<open>loss_count\<close> and leaves \<^verbatim>\<open>win_count\<close>.  Hence at every point of a run the two
  counters add up to the number of recorded trades, and \<^verbatim>\<open>win_count\<close> is the number of
  trades of strictly positive result.
\<close>
theorem zero_pnl_counts_as_loss:
  assumes "counts_consistent s"
  shows "counts_consistent initialize_variables
    \<and> counts_consistent (enter_position p d s i dir)
    \<and> counts_consistent (exit_position d s i)
    \<and> counts_consistent (backtest_bar p d s i)
    \<and> counts_consistent (backtest_loop p d js s)
    \<and> counts_consistent (run_backtest p d s)
    \<and> (in_position s \<and> pnl (last (trades (exit_position d s i))) = Fin 0 \<longrightarrow>
         loss_count (exit_position d s i) = loss_count s + 1
         \<and> win_count (exit_position d s i) = win_count s)"
proof -
  have "counts_consistent initialize_variables"
    by (simp add: counts_consistent_def initialize_variables_def)
  moreover have "counts_consistent (run_backtest p d s)"
    using assms
    by (simp add: run_backtest_def Let_def backtest_loop_counts exit_position_counts)
  moreover have "in_position s \<and> pnl (last (trades (exit_position d s i))) = Fin 0 \<longrightarrow>
         loss_count (exit_position d s i) = loss_count s + 1
         \<and> win_count (exit_position d s i) = win_count s"
    by (simp add: exit_position_win_count exit_position_loss_count)
  ultimately show ?thesis
    using assms
    by (simp add: enter_position_counts exit_position_counts backtest_bar_counts
        backtest_loop_counts)
qed

theorem zero_pnl_counts_as_loss_witness:
  "counts_consistent long_at_105 \<and> in_position long_at_105
    \<and> pnl (last (trades (exit_position sample_data long_at_105 201))) = Fin 0
    \<and> loss_count (exit_position sample_data long_at_105 201) = 1
    \<and> win_count (exit_position sample_data long_at_105 201) = 1
    \<and> counts_consistent (exit_position sample_data long_at_105 201)"
proof -
  have h: "counts_consistent long_at_105"
    by (simp add: counts_consistent_def long_at_105_def first_trade_def)
  have z: "pnl (last (trades (exit_position sample_data long_at_105 201))) = Fin 0"
    by (simp add: exit_position_def Let_def long_at_105_def sample_data_nth trending_row_def)
  have i: "in_position long_at_105"
    by (simp add: long_at_105_def)
  show ?thesis
    using h z i zero_pnl_counts_as_loss [OF h, where d = sample_data and i = 201]
    by (simp add: long_at_105_def)
qed

subsection \<open>The band confirmation\<close>

text \<open>
  Claim C9, as stated, fails.  On \<open>tiny_band_row\<close> the band \<^verbatim>\<open>atr * atr_multiplier\<close> is
  positive, \<open>3 * 2\<^sup>-\<^sup>5\<^sup>0\<close>, and every other filter of the long entry holds.  But
  \<^verbatim>\<open>close - band\<close> and \<^verbatim>\<open>close + band\<close> both round back to the close 100, so neither
  confirmation holds and the long condition is refused by the band check alone.
\<close>

theorem atr_band_absorbed_counterexample:
  "flt (Fin 0) (fmul (atr tiny_band_row) (Fin (atr_multiplier default_params)))
    \<and> atr_band default_params tiny_band_row = Fin (small_atr * 3)
    \<and> flt (Fin 0) (atr_band default_params tiny_band_row)
    \<and> \<not> atr_long_confirmation default_params tiny_band_row
    \<and> \<not> atr_short_confirmation default_params tiny_band_row
    \<and> flt (dyn_ema tiny_band_row) (Fin (close tiny_band_row))
    \<and> tsa_green tiny_band_row
    \<and> adx_long_filter default_params tiny_band_row
    \<and> \<not> tsa_consolidation tiny_band_row
    \<and> \<not> long_condition default_params tiny_band_row"
proof -
  have pos: "0 < small_atr"
    by (simp add: small_atr_def)
  have band: "atr_band default_params tiny_band_row = Fin (small_atr * 3)"
    by (simp add: atr_band_def tiny_band_row_def default_params_def round64_small_atr)
  have close: "close tiny_band_row = 100"
    by (simp add: tiny_band_row_def trending_row_def)
  have l: "\<not> atr_long_confirmation default_params tiny_band_row"
    by (simp add: atr_long_confirmation_def band close fsub_def round64_small_atr)
  have s: "\<not> atr_short_confirmation default_params tiny_band_row"
    by (simp add: atr_short_confirmation_def band close round64_small_atr)
  show ?thesis
    using pos l s
    by (simp add: band long_condition_def)
       (simp add: tiny_band_row_def trending_row_def default_params_def tsa_green_def
          adx_long_filter_def tsa_consolidation_def)
qed

text \<open>
  Claim C9, amended.  On a bar where the band \<^verbatim>\<open>atr * atr_multiplier\<close> is positive and at
  least \<open>2\<^sup>-\<^sup>5\<^sup>2\<close> times the absolute close, rounding cannot absorb it: both band
  confirmations hold, so they exclude no entry candidate and the long and the short
  condition are decided by the remaining filters.
\<close>

theorem atr_band_confirms_unless_absorbed:
  assumes "flt (Fin 0) (atr_band p r)"
    and "fle (Fin (\<bar>close r\<bar> / 2 ^ 52)) (atr_band p r)"
  shows "atr_long_confirmation p r \<and> atr_short_confirmation p r
    \<and> (long_condition p r \<longleftrightarrow>
         flt (dyn_ema r) (Fin (close r)) \<and> tsa_green r \<and> adx_long_filter p r
         \<and> \<not> tsa_consolidation r)
    \<and> (short_condition p r \<longleftrightarrow>
         flt (Fin (close r)) (dyn_ema r) \<and> tsa_red r \<and> adx_short_filter p r
         \<and> \<not> tsa_consolidation r)"
proof -
  have both: "atr_long_confirmation p r \<and> atr_short_confirmation p r"
  proof (cases "atr_band p r")
    case (Fin b)
    then have "0 < b" and "\<bar>close r\<bar> / 2 ^ 52 \<le> b"
      using assms by simp_all
    then have "round64 (close r - b) < close r" and "close r < round64 (close r + b)"
      by (rule band_not_absorbed)+
    then show ?thesis
      by (simp add: atr_long_confirmation_def atr_short_confirmation_def Fin fsub_def)
  next
    case PInf
    then show ?thesis
      by (simp add: atr_long_confirmation_def atr_short_confirmation_def fsub_def)
  next
    case NInf
    then show ?thesis
      using assms(1) by simp
  next
    case NaN
    then show ?thesis
      using assms(1) by simp
  qed
  then show ?thesis
    by (simp add: long_condition_def short_condition_def)
qed

theorem atr_band_confirms_unless_absorbed_witness:
  "flt (Fin 0) (atr_band default_params (trending_row 200 100 100 100))
    \<and> fle (Fin (\<bar>close (trending_row 200 100 100 100)\<bar> / 2 ^ 52))
        (atr_band default_params (trending_row 200 100 100 100))
    \<and> atr_long_confirmation default_params (trending_row 200 100 100 100)
    \<and> atr_short_confirmation default_params (trending_row 200 100 100 100)"
proof -
  have h: "flt (Fin 0) (atr_band default_params (trending_row 200 100 100 100))"
    by (simp add: atr_band_trending)
  have k: "fle (Fin (\<bar>close (trending_row 200 100 100 100)\<bar> / 2 ^ 52))
      (atr_band default_params (trending_row 200 100 100 100))"
    by (simp add: atr_band_trending) (simp add: trending_row_def)
  show ?thesis
    using h k atr_band_confirms_unless_absorbed [OF h k]
    by blast
qed

subsection \<open>Exit and entry within one bar\<close>

text \<open>
  Claim C2, as stated, fails.  The sample run holds a long position since bar 200; on bar 201
  the exit check closes it (the trade is recorded with exit bar 201) and the entry check of
  the same pass of the loop opens the next position, at the close of bar 201.
\<close>

theorem same_bar_reentry_counterexample:
  "backtest_loop default_params sample_data [0..<201] initialize_variables = long_at_100
    \<and> in_position long_at_100
    \<and> check_exit_conditions sample_data long_at_100 201
    \<and> trades (backtest_bar default_params sample_data long_at_100 201) = [first_trade]
    \<and> exit_bar first_trade = 201
    \<and> in_position (backtest_bar default_params sample_data long_at_100 201)
    \<and> trade_count (backtest_bar default_params sample_data long_at_100 201)
        = trade_count long_at_100 + 1
    \<and> entry_price (backtest_bar default_params sample_data long_at_100 201)
        = close (sample_data ! 201)"
  by (simp add: after_bar_200 exit_bar_201 bar_201 sample_data_nth)
     (simp add: long_at_100_def long_at_105_def first_trade_def trending_row_def)

text \<open>What an exit and an entry do to the fields the ordering is about.\<close>

lemma exit_position_trades:
  "in_position s \<Longrightarrow> length (trades (exit_position d s i)) = Suc (length (trades s))
     \<and> exit_bar (last (trades (exit_position d s i))) = i
     \<and> \<not> in_position (exit_position d s i)"
  by (simp add: exit_position_def Let_def)

lemma enter_position_fields:
  "in_position (enter_position p d s i dir)"
  "trades (enter_position p d s i dir) = trades s"
  "trade_count (enter_position p d s i dir) = trade_count s + 1"
  by (simp_all add: enter_position_def Let_def)

text \<open>
  Claim C2, amended.  Within a bar the exit check comes first.  A position that the exit check
  leaves open stays as it is and no entry is tried.  A position that it closes is recorded as
  a trade exiting on that bar, and the entry check then runs on the flat state of the same
  bar: a new position is opened on bar \<open>i\<close> itself exactly when \<open>i\<close> is past the warm-up and
  the long or the short condition holds there.
\<close>

theorem exit_before_entry_same_bar:
  assumes "in_position s"
  shows "(\<not> check_exit_conditions d s i \<longrightarrow> backtest_bar p d s i = s)
    \<and> (check_exit_conditions d s i \<longrightarrow>
          trades (backtest_bar p d s i) = trades (exit_position d s i)
          \<and> length (trades (backtest_bar p d s i)) = Suc (length (trades s))
          \<and> exit_bar (last (trades (backtest_bar p d s i))) = i
          \<and> (in_position (backtest_bar p d s i) \<longleftrightarrow>
               200 \<le> i \<and> (long_condition p (d ! i) \<or> short_condition p (d ! i)))
          \<and> (in_position (backtest_bar p d s i) \<longrightarrow>
               backtest_bar p d s i
                 = enter_position p d (exit_position d s i) i
                     (if long_condition p (d ! i) then ''long'' else ''short'')))"
proof (cases "check_exit_conditions d s i")
  case False
  then show ?thesis
    using assms by (simp add: backtest_bar_def)
next
  case True
  let ?s1 = "exit_position d s i"
  have flat: "\<not> in_position ?s1"
    and len: "length (trades ?s1) = Suc (length (trades s))"
    and last: "exit_bar (last (trades ?s1)) = i"
    using exit_position_trades [OF assms] by simp_all
  have bar: "backtest_bar p d s i =
      (if fst (check_entry_conditions p d ?s1 i)
       then enter_position p d ?s1 i (snd (check_entry_conditions p d ?s1 i)) else ?s1)"
    using assms True flat by (simp add: backtest_bar_def Let_def case_prod_beta)
  show ?thesis
    using True flat len last
    by (simp add: bar check_entry_conditions_def enter_position_fields)
qed

theorem exit_before_entry_same_bar_witness:
  "in_position long_at_100 \<and> check_exit_conditions sample_data long_at_100 201
    \<and> exit_bar (last (trades (backtest_bar default_params sample_data long_at_100 201))) = 201
    \<and> in_position (backtest_bar default_params sample_data long_at_100 201)
    \<and> backtest_bar default_params sample_data long_at_100 201
        = enter_position default_params sample_data
            (exit_position sample_data long_at_100 201) 201 ''long''"
proof -
  have h: "in_position long_at_100"
    by (simp add: long_at_100_def)
  have l: "long_condition default_params (sample_data ! 201)"
    by (simp add: sample_data_nth long_condition_trending)
  have t: "trades long_at_100 = []"
    by (simp add: long_at_100_def)
  note T = exit_before_entry_same_bar
      [OF h, where d = sample_data and i = 201 and p = default_params]
  have x: "exit_bar (last (trades (backtest_bar default_params sample_data long_at_100 201)))
      = 201"
    using T exit_bar_201 by blast
  have i: "in_position (backtest_bar default_params sample_data long_at_100 201)"
    using T exit_bar_201 l by simp
  have e: "backtest_bar default_params sample_data long_at_100 201
        = enter_position default_params sample_data
            (exit_position sample_data long_at_100 201) 201 ''long''"
    using T exit_bar_201 i l by simp
  show ?thesis
    using h exit_bar_201 x i e by blast
qed

subsection \<open>The bars a trade records\<close>

text \<open>
  Claim C8 at the sample run.  The position is entered on bar 200 (no trade and no position
  before, a position after) and closed on bar 201.  The trade that is recorded stores bar 201
  and its timestamp both as exit and as entry; the entry bar 200 and its timestamp are not
  stored.
\<close>

theorem trade_records_exit_bar_as_entry:
  "trades (backtest_loop default_params sample_data [0..<200] initialize_variables) = []
    \<and> \<not> in_position (backtest_loop default_params sample_data [0..<200] initialize_variables)
    \<and> in_position (backtest_loop default_params sample_data [0..<201] initialize_variables)
    \<and> trades (backtest_loop default_params sample_data [0..<201] initialize_variables) = []
    \<and> trades (backtest_loop default_params sample_data [0..<202] initialize_variables)
        = [first_trade]
    \<and> exit_bar first_trade = 201 \<and> exit_date first_trade = date (sample_data ! 201)
    \<and> entry_bar first_trade = 201 \<and> entry_date first_trade = date (sample_data ! 201)
    \<and> date (sample_data ! 200) = 200 \<and> date (sample_data ! 201) = 201"
proof -
  have a: "backtest_loop default_params sample_data [0..<200] initialize_variables
      = initialize_variables"
    by (rule backtest_loop_warm_up) (simp_all add: initialize_variables_def)
  have "[0..<Suc 201] = [0..<201] @ [201]"
    by (rule upt_Suc_append) simp
  then have "[0..<202] = [0..<201] @ [201]"
    by simp
  then have b: "backtest_loop default_params sample_data [0..<202] initialize_variables
      = long_at_105"
    by (simp add: backtest_loop_append after_bar_200 bar_201)
  show ?thesis
    by (simp add: a b after_bar_200 sample_data_nth)
       (simp add: initialize_variables_def long_at_100_def long_at_105_def first_trade_def
          trending_row_def)
qed

subsection \<open>The profit factor\<close>

text \<open>
  Claim C6, as stated, fails.  The sample run ends with a winning and a break-even trade:
  the gross loss is zero, the gross profit is positive, and \<^verbatim>\<open>_calculate_results\<close> reports
  the profit factor \<^verbatim>\<open>float('inf')\<close>, not 999.99.
\<close>

theorem profit_factor_sentinel_counterexample:
  "trades (run_backtest default_params sample_data initialize_variables)
      = [first_trade, second_trade]
    \<and> (case calculate_results (run_backtest default_params sample_data initialize_variables) of
         Inl e \<Rightarrow> False
       | Inr r \<Rightarrow> gross_loss r = Fin 0 \<and> gross_profit r = Fin (1 / 20)
           \<and> profit_factor r = PInf \<and> profit_factor r \<noteq> Fin (99999 / 100))"
  by (simp add: run_sample calculate_results_def Let_def long_at_105_def first_trade_def
      second_trade_def py_sum_def py_int_div_def np_min_def)

text \<open>The three guarded operations of \<^verbatim>\<open>_calculate_results\<close> do not raise.\<close>

lemma py_div_guarded: "flt (Fin 0) b \<Longrightarrow> py_div a b = Inr (fdiv a b)"
  by (auto simp add: py_div_def)

lemma py_int_div_guarded: "0 < n \<Longrightarrow> py_int_div a n = Inr (real a / real n)"
  by (simp add: py_int_div_def)

lemma np_min_guarded: "0 < length xs \<Longrightarrow> \<exists>m. np_min xs = Inr m"
  by (simp add: np_min_def)

text \<open>
  Claim C6, amended.  \<^verbatim>\<open>_calculate_results\<close> raises on no state of the strategy.
  Without trades it reports zero for every statistic.  With trades, the gross profit and the
  gross loss are the sums of the positive and of the negative results, and the profit factor
  is their quotient when the gross loss is positive and \<^verbatim>\<open>float('inf')\<close> otherwise.
\<close>

theorem profit_factor_cases:
  "(\<exists>r. calculate_results s = Inr r)
   \<and> (trades s = [] \<longrightarrow>
      calculate_results s =
        Inr \<lparr>total_trades = 0, win_rate = 0, total_return = Fin 0, profit_factor = Fin 0,
             max_drawdown = Fin 0, sharpe_ratio = Fin 0, avg_trade = Fin 0, gross_profit = Fin 0,
             gross_loss = Fin 0, r_win_count = None, r_loss_count = None\<rparr>)
   \<and> (trades s \<noteq> [] \<longrightarrow>
        (\<exists>r. calculate_results s = Inr r
          \<and> total_trades r = length (trades s)
          \<and> gross_profit r = py_sum (filter (\<lambda>x. flt (Fin 0) x) (map pnl (trades s)))
          \<and> gross_loss r = fabs (py_sum (filter (\<lambda>x. flt x (Fin 0)) (map pnl (trades s))))
          \<and> profit_factor r
              = (if flt (Fin 0) (gross_loss r) then fdiv (gross_profit r) (gross_loss r)
                 else PInf)))"
proof (cases "trades s = []")
  case True
  then show ?thesis
    by (simp add: calculate_results_def)
next
  case False
  let ?returns = "map pnl (trades s)"
  let ?gp = "py_sum (filter (\<lambda>x. flt (Fin 0) x) ?returns)"
  let ?gl = "fabs (py_sum (filter (\<lambda>x. flt x (Fin 0)) ?returns))"
  let ?dd = "map (\<lambda>(c, m). fsub c m)
      (zip (np_cumsum ?returns) (np_maximum_accumulate (np_cumsum ?returns)))"
  have n: "0 < length (trades s)"
    using False by simp
  obtain m where m: "(if 0 < length ?dd then np_min ?dd else Inr (Fin 0)) = Inr m"
    using np_min_guarded [of ?dd] by (cases "0 < length ?dd") auto
  have pf: "(if flt (Fin 0) ?gl then py_div ?gp ?gl else Inr PInf)
      = Inr (if flt (Fin 0) ?gl then fdiv ?gp ?gl else PInf)"
    by (simp add: py_div_guarded)
  have "\<exists>r. calculate_results s = Inr r
          \<and> total_trades r = length (trades s)
          \<and> gross_profit r = ?gp \<and> gross_loss r = ?gl
          \<and> profit_factor r = (if flt (Fin 0) (gross_loss r)
               then fdiv (gross_profit r) (gross_loss r) else PInf)"
    using False n
    by (simp only: calculate_results_def Let_def if_False if_True py_int_div_guarded pf m
        sum.case) simp
  then show ?thesis
    using False by blast
qed

theorem profit_factor_cases_witness:
  "trades win_and_loss \<noteq> []
    \<and> calculate_results win_and_loss \<noteq> Inl ZeroDivisionError
    \<and> (case calculate_results win_and_loss of
         Inl e \<Rightarrow> False
       | Inr r \<Rightarrow> flt (Fin 0) (gross_loss r) \<and> profit_factor r = Fin 2)
    \<and> trades initialize_variables = []
    \<and> (case calculate_results initialize_variables of
         Inl e \<Rightarrow> False | Inr r \<Rightarrow> profit_factor r = Fin 0)"
proof -
  have a: "trades win_and_loss \<noteq> []"
    by (simp add: win_and_loss_def)
  have b: "trades initialize_variables = []"
    by (simp add: initialize_variables_def)
  have sums: "py_sum (filter (\<lambda>x. flt (Fin 0) x) (map pnl (trades win_and_loss))) = Fin (1 / 20)"
    "fabs (py_sum (filter (\<lambda>x. flt x (Fin 0)) (map pnl (trades win_and_loss)))) = Fin (1 / 40)"
    by (simp_all add: win_and_loss_def first_trade_def py_sum_def)
  obtain r where r: "calculate_results win_and_loss = Inr r"
    and gl: "gross_loss r = Fin (1 / 40)" and gp: "gross_profit r = Fin (1 / 20)"
    and pf: "profit_factor r
      = (if flt (Fin 0) (gross_loss r) then fdiv (gross_profit r) (gross_loss r) else PInf)"
    using a profit_factor_cases [of win_and_loss] sums by auto
  have z: "calculate_results initialize_variables
      = Inr \<lparr>total_trades = 0, win_rate = 0, total_return = Fin 0, profit_factor = Fin 0,
             max_drawdown = Fin 0, sharpe_ratio = Fin 0, avg_trade = Fin 0, gross_profit = Fin 0,
             gross_loss = Fin 0, r_win_count = None, r_loss_count = None\<rparr>"
    using b profit_factor_cases [of initialize_variables] by blast
  show ?thesis
    using a b by (simp add: r z pf gl gp)
qed

section \<open>Properties of the trend speed analysis\<close>

subsection \<open>Reads of the loop\<close>


lemma rolling_max_abs_nth:
  "i < length xs \<Longrightarrow> rolling_max_abs xs ! i =
     (if i < 199 then NaN else series_max (map abs (take 200 (drop (i - 199) xs))))"
  by (simp add: rolling_max_abs_def)

lemma dyn_length_nth:
  "i < length xs \<Longrightarrow> dyn_length p xs ! i =
     (let m = rolling_max_abs xs ! i
      in fadd (Fin 5) (fmul (fdiv (fadd (Fin (xs ! i)) m) (fmul (Fin 2) m)) (Fin (max_length p - 5))))"
  by (simp add: dyn_length_def Let_def)

lemma calculate_hma_early: "i < 4 \<Longrightarrow> calculate_hma d v 5 i = Inr v"
  by (simp add: calculate_hma_def)

lemma calculate_hma_raises:
  assumes "4 \<le> i" and "i < length d"
  shows "calculate_hma d v 5 i = Inl TypeError"
proof -
  have "length (map trend_speed (drop (i + 1 - 5) (take (i + 1) d))) = 5"
    using assms by simp
  then show ?thesis
    using assms by (simp add: calculate_hma_def Let_def np_average_def)
qed

text \<open>Every read of bar \<open>i\<close> stays within the first \<open>i + 1\<close> rows, so it is the same on a
  frame cut after them.\<close>

lemma window_take:
  "i < k \<Longrightarrow> drop n (take (i + 1) (take k d)) = drop n (take (i + 1) d)"
  by (simp add: min_def)

lemma rolling_window_take:
  assumes "i < k" "199 \<le> i"
  shows "take 200 (drop (i - 199) (take k xs)) = take 200 (drop (i - 199) xs)"
proof -
  have "200 \<le> k - (i - 199)" using assms by arith
  then show ?thesis
    by (simp add: drop_take min_def)
qed

lemma rolling_max_abs_take:
  assumes "i < k" "k \<le> length xs"
  shows "rolling_max_abs (take k xs) ! i = rolling_max_abs xs ! i"
  using assms by (simp add: rolling_max_abs_nth rolling_window_take)

lemma dyn_length_take:
  assumes "i < k" "k \<le> length xs"
  shows "dyn_length p (take k xs) ! i = dyn_length p xs ! i"
  using assms by (simp add: dyn_length_nth rolling_max_abs_take)

lemma accel_factor_take:
  assumes "i < k" "k \<le> length xs"
  shows "accel_factor (take k xs) prev i = accel_factor xs prev i"
  using assms by (simp add: accel_factor_def rolling_max_abs_take)

lemma tsa_alpha_take:
  assumes "i < k" "k \<le> length xs"
  shows "tsa_alpha p (take k xs) prev i = tsa_alpha p xs prev i"
  using assms by (simp add: tsa_alpha_def dyn_length_take accel_factor_take)

lemma tsa_dyn_ema_take:
  assumes "i < k" "k \<le> length (data s)"
  shows "tsa_dyn_ema p (truncate_frame k s) i = tsa_dyn_ema p s i"
  using assms tsa_alpha_take [of i k "map close (data s)" p]
  by (simp add: tsa_dyn_ema_def truncate_frame_def take_map)

lemma bullish_crossover_take:
  "i < k \<Longrightarrow> bullish_crossover (take k d) i de = bullish_crossover d i de"
  by (simp add: bullish_crossover_def)

lemma bearish_crossover_take:
  "i < k \<Longrightarrow> bearish_crossover (take k d) i de = bearish_crossover d i de"
  by (simp add: bearish_crossover_def bullish_crossover_take)

lemma update_speed_take:
  "i < k \<Longrightarrow> update_speed (truncate_frame k s) i de = truncate_frame k (update_speed s i de)"
  by (simp add: update_speed_def truncate_frame_def bullish_crossover_take
      bearish_crossover_take Let_def)

lemma calculate_hma_take:
  "i < k \<Longrightarrow> calculate_hma (take k d) v n i = calculate_hma d v n i"
  by (simp add: calculate_hma_def window_take)

lemma speed_window_take:
  "i < k \<Longrightarrow> speed_window p (take k d) i = speed_window p d i"
  by (simp add: speed_window_def window_take)

lemma normalize_speed_take:
  "i < k \<Longrightarrow> normalize_speed p (take k d) i ts = normalize_speed p d i ts"
  by (simp add: normalize_speed_def speed_window_take)


lemma set_take:
  "i < k \<Longrightarrow> take k (set_dyn_ema d i v) = set_dyn_ema (take k d) i v"
  by (simp add: set_dyn_ema_def take_update_swap)

lemma set_take2:
  "i < k \<Longrightarrow> take k (set_trend_speed d i v) = set_trend_speed (take k d) i v"
  "i < k \<Longrightarrow> take k (set_normalized_speed d i w) = set_normalized_speed (take k d) i w"
  by (simp_all add: set_trend_speed_def set_normalized_speed_def take_update_swap)

lemma update_speed_data: "data (update_speed s i de) = data s"
  by (simp add: update_speed_def Let_def)

lemma truncate_frame_simps:
  "data (truncate_frame k s) = take k (data s)"
  "speed (truncate_frame k s) = speed s"
  "prev_counts_diff (truncate_frame k s) = prev_counts_diff s"
  "dyn_ema_prev (truncate_frame k s) = dyn_ema_prev s"
  by (simp_all add: truncate_frame_def)

lemma finish_take:
  assumes "i < k"
  shows "(case calculate_hma (data (truncate_frame k s2)) (speed (truncate_frame k s2)) 5 i of
            Inl e \<Rightarrow> Inl e
          | Inr ts \<Rightarrow> Inr ((truncate_frame k s2)
              \<lparr>data := set_normalized_speed (set_trend_speed (data (truncate_frame k s2)) i ts) i
                  (normalize_speed p (set_trend_speed (data (truncate_frame k s2)) i ts) i ts),
               prev_counts_diff := c, dyn_ema_prev := de\<rparr>))
    = (case (case calculate_hma (data s2) (speed s2) 5 i of
               Inl e \<Rightarrow> Inl e
             | Inr ts \<Rightarrow> Inr (s2
                 \<lparr>data := set_normalized_speed (set_trend_speed (data s2) i ts) i
                     (normalize_speed p (set_trend_speed (data s2) i ts) i ts),
                  prev_counts_diff := c, dyn_ema_prev := de\<rparr>)) of
         Inl e \<Rightarrow> Inl e | Inr s' \<Rightarrow> Inr (truncate_frame k s'))"
proof (cases "calculate_hma (data s2) (speed s2) 5 i")
  case (Inl e)
  then show ?thesis
    using assms by (simp add: truncate_frame_simps calculate_hma_take)
next
  case (Inr ts)
  then show ?thesis
    using assms
    by (simp add: truncate_frame_simps calculate_hma_take set_take2 [symmetric]
        normalize_speed_take)
       (simp add: truncate_frame_def)
qed

lemma tsa_iter_take:
  assumes "i < k" "k \<le> length (data s)"
  shows "tsa_iter p (truncate_frame k s) i
     = (case tsa_iter p s i of Inl e \<Rightarrow> Inl e | Inr s' \<Rightarrow> Inr (truncate_frame k s'))"
proof (cases "i = 0")
  case True
  then show ?thesis
    using assms by (simp add: tsa_iter_def truncate_frame_def set_take)
next
  case False
  let ?de = "tsa_dyn_ema p s i"
  let ?s2 = "update_speed (s\<lparr>data := set_dyn_ema (data s) i ?de\<rparr>) i ?de"
  have e1: "tsa_dyn_ema p (truncate_frame k s) i = ?de"
    using assms by (rule tsa_dyn_ema_take)
  have e2: "(truncate_frame k s)\<lparr>data := set_dyn_ema (data (truncate_frame k s)) i ?de\<rparr>
      = truncate_frame k (s\<lparr>data := set_dyn_ema (data s) i ?de\<rparr>)"
    using assms by (simp add: truncate_frame_def set_take)
  have e3: "update_speed (truncate_frame k (s\<lparr>data := set_dyn_ema (data s) i ?de\<rparr>)) i ?de
      = truncate_frame k ?s2"
    using assms by (simp add: update_speed_take)
  have e4: "map close (data (truncate_frame k s)) ! i = map close (data s) ! i"
    using assms by (simp add: truncate_frame_def)
  have "tsa_iter p (truncate_frame k s) i =
     (case calculate_hma (data (truncate_frame k ?s2)) (speed (truncate_frame k ?s2)) 5 i of
            Inl e \<Rightarrow> Inl e
          | Inr ts \<Rightarrow> Inr ((truncate_frame k ?s2)
              \<lparr>data := set_normalized_speed (set_trend_speed (data (truncate_frame k ?s2)) i ts) i
                  (normalize_speed p (set_trend_speed (data (truncate_frame k ?s2)) i ts) i ts),
               prev_counts_diff := map close (data s) ! i, dyn_ema_prev := ?de\<rparr>))"
    using False
    by (simp only: tsa_iter_def [of p "truncate_frame k s"] Let_def e1 e2 e3 e4 if_False)
  also have "\<dots> = (case tsa_iter p s i of Inl e \<Rightarrow> Inl e | Inr s' \<Rightarrow> Inr (truncate_frame k s'))"
    using False assms(1)
    by (simp only: tsa_iter_def [of p s] Let_def if_False finish_take)
  finally show ?thesis .
qed

lemma tsa_iter_length:
  "tsa_iter p s i = Inr s' \<Longrightarrow> length (data s') = length (data s)"
  by (auto simp add: tsa_iter_def Let_def update_speed_data set_dyn_ema_def set_trend_speed_def
      set_normalized_speed_def split: if_splits sum.splits)

lemma tsa_loop_take:
  assumes "\<forall>i\<in>set js. i < k" "k \<le> length (data s)"
  shows "tsa_loop p js (truncate_frame k s)
     = (case tsa_loop p js s of Inl e \<Rightarrow> Inl e | Inr s' \<Rightarrow> Inr (truncate_frame k s'))"
  using assms
proof (induction js arbitrary: s)
  case Nil
  then show ?case by simp
next
  case (Cons j js)
  show ?case
  proof (cases "tsa_iter p s j")
    case (Inl e)
    then show ?thesis
      using Cons.prems by (simp add: tsa_iter_take)
  next
    case (Inr s')
    then have "k \<le> length (data s')"
      using Cons.prems tsa_iter_length by simp
    then show ?thesis
      using Cons Inr by (simp add: tsa_iter_take)
  qed
qed

lemma tsa_init_take: "tsa_init (take k d) = truncate_frame k (tsa_init d)"
  by (simp add: tsa_init_def truncate_frame_def take_map)

lemma tsa_loop_append:
  "tsa_loop p (js @ ks) s
     = (case tsa_loop p js s of Inl e \<Rightarrow> Inl e | Inr s' \<Rightarrow> tsa_loop p ks s')"
  by (induction js arbitrary: s) (simp_all split: sum.splits)

lemma tsa_iter_other_rows:
  "tsa_iter p s i = Inr s' \<Longrightarrow> j \<noteq> i \<Longrightarrow> data s' ! j = data s ! j"
  by (auto simp add: tsa_iter_def Let_def update_speed_data set_dyn_ema_def set_trend_speed_def
      set_normalized_speed_def split: if_splits sum.splits)

lemma tsa_loop_length:
  "tsa_loop p js s = Inr s' \<Longrightarrow> length (data s') = length (data s)"
proof (induction js arbitrary: s)
  case Nil
  then show ?case by simp
next
  case (Cons j js)
  then show ?case
    by (auto split: sum.splits dest: tsa_iter_length)
qed

lemma tsa_loop_other_rows:
  "tsa_loop p js s = Inr s' \<Longrightarrow> j \<notin> set js \<Longrightarrow> data s' ! j = data s ! j"
proof (induction js arbitrary: s)
  case Nil
  then show ?case by simp
next
  case (Cons i js)
  then show ?case
    by (auto split: sum.splits dest: tsa_iter_other_rows)
qed

lemma tsa_loop_take_rows:
  assumes "tsa_loop p [k..<n] s = Inr s'"
  shows "take k (data s') = take k (data s)"
proof (rule nth_equalityI)
  show "length (take k (data s')) = length (take k (data s))"
    using assms tsa_loop_length by simp
next
  fix j assume "j < length (take k (data s'))"
  then have "j < k" by simp
  then have "data s' ! j = data s ! j"
    using assms by (intro tsa_loop_other_rows [of p "[k..<n]" s s' j]) simp_all
  then show "take k (data s') ! j = take k (data s) ! j"
    using \<open>j < k\<close> by simp
qed

lemma upt_split: "k \<le> n \<Longrightarrow> [0..<n] = [0..<k] @ [k..<n]"
  using upt_add_eq_append [of 0 k "n - k"] by simp

text \<open>
  Claim C1.  No value of bar \<open>i\<close> depends on a later bar.  The computation on the series cut
  after bar \<open>i\<close> yields exactly what the loop on the full series has produced once it has
  passed bar \<open>i\<close>: the same exception, or the same rows \<open>0\<close> to \<open>i\<close>.  Whenever the
  computation on the full series returns, the one on the cut series returns too, and
  \<^verbatim>\<open>dyn_ema\<close>, \<^verbatim>\<open>trend_speed\<close> and \<^verbatim>\<open>normalized_speed\<close> of bar \<open>i\<close> are equal in both.  The
  columns of TA-Lib are input to this computation and are carried along unchanged.
\<close>

theorem no_lookahead:
  assumes "i < length d"
  shows "calculate_tsa_indicators p (take (Suc i) d)
      = (case tsa_loop p [0..<Suc i] (tsa_init d) of
           Inl e \<Rightarrow> Inl e | Inr s \<Rightarrow> Inr (take (Suc i) (data s)))
    \<and> (\<forall>out. calculate_tsa_indicators p d = Inr out \<longrightarrow>
          calculate_tsa_indicators p (take (Suc i) d) = Inr (take (Suc i) out)
          \<and> dyn_ema (take (Suc i) out ! i) = dyn_ema (out ! i)
          \<and> trend_speed (take (Suc i) out ! i) = trend_speed (out ! i)
          \<and> normalized_speed (take (Suc i) out ! i) = normalized_speed (out ! i))"
proof -
  let ?k = "Suc i"
  have len: "length (take ?k d) = ?k"
    using assms by simp
  have k: "?k \<le> length (data (tsa_init d))"
    using assms by (simp add: tsa_init_def)
  have A: "calculate_tsa_indicators p (take ?k d)
      = (case tsa_loop p [0..<?k] (tsa_init d) of
           Inl e \<Rightarrow> Inl e | Inr s \<Rightarrow> Inr (take ?k (data s)))"
    unfolding calculate_tsa_indicators_def len tsa_init_take
    using tsa_loop_take [of "[0..<?k]" ?k "tsa_init d" p] k
    by (simp add: truncate_frame_simps split: sum.splits)
  have B: "calculate_tsa_indicators p (take ?k d) = Inr (take ?k out)"
    if "calculate_tsa_indicators p d = Inr out" for out
  proof -
    have "\<exists>sf. tsa_loop p [0..<length d] (tsa_init d) = Inr sf \<and> out = data sf"
      using that unfolding calculate_tsa_indicators_def
      by (cases "tsa_loop p [0..<length d] (tsa_init d)") auto
    then obtain sf where sf: "tsa_loop p [0..<length d] (tsa_init d) = Inr sf"
      and out: "out = data sf"
      by blast
    have "[0..<length d] = [0..<?k] @ [?k..<length d]"
      using assms by (intro upt_split) simp
    then obtain sk where sk: "tsa_loop p [0..<?k] (tsa_init d) = Inr sk"
      and rest: "tsa_loop p [?k..<length d] sk = Inr sf"
      using sf by (auto simp add: tsa_loop_append split: sum.splits)
    have "take ?k (data sf) = take ?k (data sk)"
      using rest by (rule tsa_loop_take_rows)
    then show ?thesis
      by (simp add: A sk out del: upt_Suc)
  qed
  show ?thesis
    using A B by (simp del: upt_Suc)
qed

subsection \<open>A run on three bars\<close>


lemma upt3: "[0..<3] = [0, 1, 2]"
  by (simp add: upt_rec)

lemma alpha_warm_up:
  "i < 199 \<Longrightarrow> i < length xs \<Longrightarrow> tsa_alpha p xs prev i = Fin 1"
  by (simp add: tsa_alpha_def accel_factor_def dyn_length_nth rolling_max_abs_nth py_max_def py_min_def)

lemma dyn_ema_warm_up:
  "i < 199 \<Longrightarrow> i < length (data s) \<Longrightarrow> dyn_ema_prev s = Fin e \<Longrightarrow>
     tsa_dyn_ema p s i = Fin (close (data s ! i))"
  by (simp add: tsa_dyn_ema_def alpha_warm_up fsub_def)

lemma run3: "calculate_tsa_indicators short_window three_bars = Inr three_bars_out"
  by (simp add: calculate_tsa_indicators_def three_bars_def upt3 tsa_init_def
      tsa_iter_def set_dyn_ema_def Let_def dyn_ema_warm_up update_speed_def bullish_crossover_def
      bearish_crossover_def calculate_hma_early price_row_def set_trend_speed_def
      set_normalized_speed_def normalize_speed_def speed_window_def short_window_def
      default_params_def series_min_def series_max_def fne_def fsub_def three_bars_out_def
      round64_int)

theorem no_lookahead_witness:
  "(1::nat) < length three_bars
    \<and> calculate_tsa_indicators short_window three_bars = Inr three_bars_out
    \<and> calculate_tsa_indicators short_window (take 2 three_bars) = Inr (take 2 three_bars_out)
    \<and> calculate_tsa_indicators short_window [price_row 0 100 100, price_row 1 100 102]
        = Inr [(price_row 0 100 100)\<lparr>dyn_ema := Fin 100\<rparr>,
               (price_row 1 100 102)\<lparr>dyn_ema := Fin 102, trend_speed := 2,
                  normalized_speed := Fin (1 / 2)\<rparr>]"
proof -
  have l: "(1::nat) < length three_bars"
    by (simp add: three_bars_def)
  have "calculate_tsa_indicators short_window (take (Suc 1) three_bars)
      = Inr (take (Suc 1) three_bars_out)"
    using no_lookahead [OF l, of short_window] run3 by blast
  then have t: "calculate_tsa_indicators short_window (take 2 three_bars)
      = Inr (take 2 three_bars_out)"
    by (simp add: numeral_2_eq_2)
  then show ?thesis
    using l run3 by (simp add: three_bars_def three_bars_out_def)
qed

subsection \<open>The normalised speed\<close>

text \<open>
  Claim C7, as stated, fails on bar \<open>0\<close>.  On a frame of one bar the window of the default
  100 bars is not full, yet \<^verbatim>\<open>normalized_speed\<close> of bar \<open>0\<close> is the \<open>0\<close> the column was
  initialised with, not \<open>0.5\<close>: the first pass of the loop seeds the average and continues.
\<close>

theorem normalized_speed_first_bar_counterexample:
  "calculate_tsa_indicators default_params one_bar = Inr [(price_row 0 100 101)\<lparr>dyn_ema := Fin 101\<rparr>]
    \<and> normalized_speed ((price_row 0 100 101)\<lparr>dyn_ema := Fin 101\<rparr>) = Fin 0
    \<and> Fin 0 \<noteq> Fin (1 / 2)
    \<and> 0 < collen default_params"
  by (simp add: calculate_tsa_indicators_def one_bar_def tsa_init_def tsa_iter_def
      set_dyn_ema_def price_row_def default_params_def)

lemma trend_speed_set_normalized:
  "map trend_speed (set_normalized_speed d i v) = map trend_speed d"
proof (rule nth_equalityI)
  show "length (map trend_speed (set_normalized_speed d i v)) = length (map trend_speed d)"
    by (simp add: set_normalized_speed_def)
next
  fix j assume "j < length (map trend_speed (set_normalized_speed d i v))"
  then have "j < length d"
    by (simp add: set_normalized_speed_def)
  then show "map trend_speed (set_normalized_speed d i v) ! j = map trend_speed d ! j"
    by (cases "j = i") (simp_all add: set_normalized_speed_def)
qed

lemma speed_window_set_normalized:
  "speed_window p (set_normalized_speed d i v) j = speed_window p d j"
  using trend_speed_set_normalized [of d i v]
  by (simp add: speed_window_def drop_map [symmetric] take_map [symmetric])

lemma normalize_speed_set_normalized:
  "normalize_speed p (set_normalized_speed d i v) j ts = normalize_speed p d j ts"
  by (simp add: normalize_speed_def speed_window_set_normalized)

lemma set_lengths:
  "length (set_dyn_ema d i v) = length d"
  "length (set_trend_speed d i w) = length d"
  "length (set_normalized_speed d i v) = length d"
  by (simp_all add: set_dyn_ema_def set_trend_speed_def set_normalized_speed_def)

lemma set_nth_same:
  "i < length d \<Longrightarrow> trend_speed (set_normalized_speed (set_trend_speed d i w) i v ! i) = w"
  "i < length d \<Longrightarrow> normalized_speed (set_normalized_speed d i v ! i) = v"
  "i < length d \<Longrightarrow> normalized_speed (set_dyn_ema d i v ! i) = normalized_speed (d ! i)"
  by (simp_all add: set_dyn_ema_def set_trend_speed_def set_normalized_speed_def)

lemma tsa_iter_row:
  assumes "tsa_iter p s i = Inr s'" and "i < length (data s)" and "0 < i"
  shows "normalized_speed (data s' ! i)
    = normalize_speed p (data s') i (trend_speed (data s' ! i))"
proof -
  let ?de = "tsa_dyn_ema p s i"
  let ?s2 = "update_speed (s\<lparr>data := set_dyn_ema (data s) i ?de\<rparr>) i ?de"
  obtain ts where ts: "calculate_hma (data ?s2) (speed ?s2) 5 i = Inr ts"
    and s': "s' = ?s2\<lparr>data := set_normalized_speed (set_trend_speed (data ?s2) i ts) i
                (normalize_speed p (set_trend_speed (data ?s2) i ts) i ts),
              prev_counts_diff := map close (data s) ! i, dyn_ema_prev := ?de\<rparr>"
    using assms(1,3)
    by (cases "calculate_hma (data ?s2) (speed ?s2) 5 i")
       (simp_all only: tsa_iter_def Let_def sum.case sum.inject sum.distinct if_False
          less_numeral_extra(3) simp_thms, auto)
  have len: "i < length (data ?s2)"
    using assms(2) by (simp add: update_speed_data set_lengths)
  show ?thesis
    using len by (simp add: s' set_nth_same set_lengths normalize_speed_set_normalized)
qed


lemma tsa_iter_first_row:
  assumes "tsa_iter p s 0 = Inr s'" and "0 < length (data s)"
  shows "normalized_speed (data s' ! 0) = normalized_speed (data s ! 0)"
  using assms by (auto simp add: tsa_iter_def set_nth_same)

lemma tsa_init_row:
  "i < length d \<Longrightarrow> normalized_speed (data (tsa_init d) ! i) = Fin 0"
  by (simp add: tsa_init_def)

text \<open>What a run that returns leaves in row \<open>i\<close>.\<close>

lemma run_row:
  assumes "calculate_tsa_indicators p d = Inr out" and "i < length d"
  shows "normalized_speed (out ! i)
    = (if i = 0 then Fin 0 else normalize_speed p out i (trend_speed (out ! i)))"
proof -
  have "\<exists>sf. tsa_loop p [0..<length d] (tsa_init d) = Inr sf \<and> out = data sf"
    using assms(1) unfolding calculate_tsa_indicators_def
    by (cases "tsa_loop p [0..<length d] (tsa_init d)") auto
  then obtain sf where sf: "tsa_loop p [0..<length d] (tsa_init d) = Inr sf"
    and out: "out = data sf"
    by blast
  have "[0..<length d] = [0..<Suc i] @ [Suc i..<length d]"
    using assms(2) by (intro upt_split) simp
  then have split: "[0..<length d] = [0..<i] @ [i] @ [Suc i..<length d]"
    by simp
  obtain sa sb where sa: "tsa_loop p [0..<i] (tsa_init d) = Inr sa"
    and sb: "tsa_iter p sa i = Inr sb"
    and rest: "tsa_loop p [Suc i..<length d] sb = Inr sf"
    using sf unfolding split
    by (auto simp add: tsa_loop_append split: sum.splits)
  have la: "length (data sa) = length d"
    using tsa_loop_length [OF sa] by (simp add: tsa_init_def)
  have lb: "length (data sb) = length d"
    using tsa_iter_length [OF sb] la by simp
  have rows: "take (Suc i) (data sf) = take (Suc i) (data sb)"
    using rest by (rule tsa_loop_take_rows)
  then have row: "data sf ! i = data sb ! i"
    by (metis lessI nth_take)
  show ?thesis
  proof (cases "i = 0")
    case True
    have "normalized_speed (data sb ! 0) = normalized_speed (data sa ! 0)"
      using tsa_iter_first_row [of p sa sb] sb la assms(2) True by simp
    also have "sa = tsa_init d"
      using sa True by simp
    finally show ?thesis
      using True row assms(2) by (simp add: out tsa_init_row)
  next
    case False
    have "normalized_speed (data sb ! i)
        = normalize_speed p (data sb) i (trend_speed (data sb ! i))"
      using tsa_iter_row [OF sb] la assms(2) False by simp
    also have "\<dots> = normalize_speed p (take (Suc i) (data sb)) i (trend_speed (data sb ! i))"
      by (simp add: normalize_speed_take)
    also have "\<dots> = normalize_speed p (data sf) i (trend_speed (data sb ! i))"
      by (simp add: rows [symmetric] normalize_speed_take)
    finally show ?thesis
      using False by (simp add: out row)
  qed
qed

lemma min_max_formula:
  "fne (Fin hi) (Fin lo) = (hi \<noteq> lo)"
  "hi \<noteq> lo \<Longrightarrow> fdiv (fsub (Fin t) (Fin lo)) (fsub (Fin hi) (Fin lo)) = Fin ((t - lo) / (hi - lo))"
  by (simp_all add: fne_def fsub_def)

lemma normalize_speed_full:
  assumes "collen p \<le> i" and "speed_window p d i \<noteq> []"
  shows "normalize_speed p d i t
    = (if Max (set (speed_window p d i)) \<noteq> Min (set (speed_window p d i))
       then Fin ((t - Min (set (speed_window p d i)))
                 / (Max (set (speed_window p d i)) - Min (set (speed_window p d i))))
       else Fin (1 / 2))"
proof -
  let ?lo = "Min (set (speed_window p d i))"
  let ?hi = "Max (set (speed_window p d i))"
  have unfolded: "normalize_speed p d i t
      = (if fne (Fin ?hi) (Fin ?lo)
         then fdiv (fsub (Fin t) (Fin ?lo)) (fsub (Fin ?hi) (Fin ?lo)) else Fin (1 / 2))"
    using assms
    by (simp only: normalize_speed_def series_min_def series_max_def Let_def if_True if_False)
  show ?thesis
  proof (cases "?hi = ?lo")
    case True
    then show ?thesis
      by (simp add: unfolded min_max_formula(1))
  next
    case False
    then show ?thesis
      by (simp only: unfolded min_max_formula(1) min_max_formula(2) [OF False])
  qed
qed

lemma speed_window_last:
  assumes "i < length d" and "collen p \<le> i" and "0 < collen p"
  shows "speed_window p d i \<noteq> []" and "trend_speed (d ! i) \<in> set (speed_window p d i)"
proof -
  have "d ! i \<in> set (drop (i + 1 - collen p) (take (i + 1) d))"
    using assms
    by (simp add: in_set_conv_nth)
       (rule exI [of _ "collen p - 1"], simp)
  then show "trend_speed (d ! i) \<in> set (speed_window p d i)"
    by (simp add: speed_window_def)
  then show "speed_window p d i \<noteq> []"
    by auto
qed

text \<open>The window of bar \<open>i\<close> holds the speeds of the \<open>collen\<close> rows that end at row \<open>i\<close>.\<close>

lemma speed_window_rows:
  assumes "i < length f" and "collen p \<le> i + 1"
  shows "speed_window p f i = map (\<lambda>k. trend_speed (f ! k)) [i + 1 - collen p..<i + 1]"
proof (rule nth_equalityI)
  show "length (speed_window p f i)
      = length (map (\<lambda>k. trend_speed (f ! k)) [i + 1 - collen p..<i + 1])"
    using assms by (auto simp add: speed_window_def)
next
  fix k assume "k < length (speed_window p f i)"
  then have k: "i + 1 - collen p + k < i + 1"
    using assms by (simp add: speed_window_def)
  then have "speed_window p f i ! k = trend_speed (f ! (i + 1 - collen p + k))"
    using assms by (simp add: speed_window_def del: upt_Suc)
  moreover have "[i + 1 - collen p..<i + 1] ! k = i + 1 - collen p + k"
    using k by (simp del: upt_Suc)
  moreover have "k < length [i + 1 - collen p..<i + 1]"
    using k by (simp del: upt_Suc)
  ultimately show "speed_window p f i ! k
      = map (\<lambda>k. trend_speed (f ! k)) [i + 1 - collen p..<i + 1] ! k"
    by (simp only: nth_map)
qed

lemma full_window_speeds:
  "speed_window default_params full_window 100 = map (\<lambda>k. 0) [1..<100] @ [1]"
  "length full_window = 101"
  "trend_speed (full_window ! 100) = 1"
proof -
  have "drop 1 (map (\<lambda>t. price_row t 100 100) [0..<100])
      = map (\<lambda>t. price_row t 100 100) [1..<100]"
    by (simp add: drop_map)
  then show "speed_window default_params full_window 100 = map (\<lambda>k. 0) [1..<100] @ [1]"
    by (simp add: speed_window_def full_window_def default_params_def price_row_def comp_def)
  show "length full_window = 101"
    by (simp add: full_window_def)
  show "trend_speed (full_window ! 100) = 1"
    by (simp add: full_window_def nth_append)
qed

lemma full_window_extremes:
  "Max (set (speed_window default_params full_window 100)) = 1"
  "Min (set (speed_window default_params full_window 100)) = 0"
proof -
  have "(0::real) \<in> (\<lambda>k. 0) ` {Suc 0..<100}"
    by (rule image_eqI [where x = 1]) simp_all
  then have "set (speed_window default_params full_window 100) = {0, 1}"
    by (auto simp add: full_window_speeds(1))
  then show "Max (set (speed_window default_params full_window 100)) = 1"
    and "Min (set (speed_window default_params full_window 100)) = 0"
    by simp_all
qed

text \<open>
  Claim C7, amended.  Bar \<open>0\<close> keeps the \<open>0.0\<close> the column was initialised with.  For every
  bar \<open>i \<ge> 1\<close> the value written to \<^verbatim>\<open>normalized_speed[i]\<close> is the normalisation of
  \<^verbatim>\<open>trend_speed[i]\<close> over the \<^verbatim>\<open>collen\<close> rows that end at row \<open>i\<close>, read after
  \<^verbatim>\<open>trend_speed[i]\<close> was written.  It is \<open>0.5\<close> whenever the window is not yet full
  (\<open>i < collen\<close>) or the maximum of the window equals its minimum; otherwise it is
  \<open>(trend_speed[i] - min) / (max - min)\<close> and lies between 0 and 1.

  The first conjunct is about the frame a run returns, the second about the two
  assignments of one pass of the loop, the others about the normalisation on any frame.
\<close>

theorem normalized_speed_assignment:
  "(calculate_tsa_indicators p d = Inr out \<and> i < length d \<longrightarrow>
      normalized_speed (out ! i)
        = (if i = 0 then Fin 0 else normalize_speed p out i (trend_speed (out ! i))))
   \<and> (j < length f \<longrightarrow>
        (let f1 = set_trend_speed f j ts;
             f2 = set_normalized_speed f1 j (normalize_speed p f1 j ts)
         in trend_speed (f2 ! j) = ts
            \<and> normalized_speed (f2 ! j) = normalize_speed p f2 j (trend_speed (f2 ! j))))
   \<and> (j < collen p \<longrightarrow> normalize_speed p f j (trend_speed (f ! j)) = Fin (1 / 2))
   \<and> (collen p \<le> j \<and> j < length f \<and> 0 < collen p \<longrightarrow>
        speed_window p f j = map (\<lambda>k. trend_speed (f ! k)) [j + 1 - collen p..<j + 1]
        \<and> (Max (set (speed_window p f j)) = Min (set (speed_window p f j)) \<longrightarrow>
             normalize_speed p f j (trend_speed (f ! j)) = Fin (1 / 2))
        \<and> (Max (set (speed_window p f j)) \<noteq> Min (set (speed_window p f j)) \<longrightarrow>
             normalize_speed p f j (trend_speed (f ! j))
               = Fin ((trend_speed (f ! j) - Min (set (speed_window p f j)))
                      / (Max (set (speed_window p f j)) - Min (set (speed_window p f j))))
             \<and> 0 \<le> (trend_speed (f ! j) - Min (set (speed_window p f j)))
                      / (Max (set (speed_window p f j)) - Min (set (speed_window p f j)))
             \<and> (trend_speed (f ! j) - Min (set (speed_window p f j)))
                 / (Max (set (speed_window p f j)) - Min (set (speed_window p f j))) \<le> 1))"
proof -
  have run: "normalized_speed (out ! i)
        = (if i = 0 then Fin 0 else normalize_speed p out i (trend_speed (out ! i)))"
    if "calculate_tsa_indicators p d = Inr out" and "i < length d"
    using that by (rule run_row)
  have pass: "let f1 = set_trend_speed f j ts;
             f2 = set_normalized_speed f1 j (normalize_speed p f1 j ts)
         in trend_speed (f2 ! j) = ts
            \<and> normalized_speed (f2 ! j) = normalize_speed p f2 j (trend_speed (f2 ! j))"
    if "j < length f"
    using that
    by (simp add: Let_def set_nth_same set_lengths normalize_speed_set_normalized)
  have early: "normalize_speed p f j (trend_speed (f ! j)) = Fin (1 / 2)" if "j < collen p"
    using that by (simp add: normalize_speed_def)
  have full: "speed_window p f j = map (\<lambda>k. trend_speed (f ! k)) [j + 1 - collen p..<j + 1]
        \<and> (Max (set (speed_window p f j)) = Min (set (speed_window p f j)) \<longrightarrow>
             normalize_speed p f j (trend_speed (f ! j)) = Fin (1 / 2))
        \<and> (Max (set (speed_window p f j)) \<noteq> Min (set (speed_window p f j)) \<longrightarrow>
             normalize_speed p f j (trend_speed (f ! j))
               = Fin ((trend_speed (f ! j) - Min (set (speed_window p f j)))
                      / (Max (set (speed_window p f j)) - Min (set (speed_window p f j))))
             \<and> 0 \<le> (trend_speed (f ! j) - Min (set (speed_window p f j)))
                      / (Max (set (speed_window p f j)) - Min (set (speed_window p f j)))
             \<and> (trend_speed (f ! j) - Min (set (speed_window p f j)))
                 / (Max (set (speed_window p f j)) - Min (set (speed_window p f j))) \<le> 1)"
    if h: "collen p \<le> j" "j < length f" "0 < collen p"
  proof -
    let ?w = "set (speed_window p f j)"
    let ?t = "trend_speed (f ! j)"
    have ne: "speed_window p f j \<noteq> []" and mem: "?t \<in> ?w"
      using speed_window_last [OF h(2) h(1) h(3)] by simp_all
    have rows: "speed_window p f j = map (\<lambda>k. trend_speed (f ! k)) [j + 1 - collen p..<j + 1]"
      using h by (intro speed_window_rows) simp_all
    have val: "normalize_speed p f j ?t
        = (if Max ?w \<noteq> Min ?w then Fin ((?t - Min ?w) / (Max ?w - Min ?w)) else Fin (1 / 2))"
      using h(1) ne by (rule normalize_speed_full)
    have lo: "Min ?w \<le> ?t" and hi: "?t \<le> Max ?w"
      using mem by simp_all
    have bounds: "0 \<le> (?t - Min ?w) / (Max ?w - Min ?w) \<and> (?t - Min ?w) / (Max ?w - Min ?w) \<le> 1"
      if "Max ?w \<noteq> Min ?w"
    proof -
      have "0 < Max ?w - Min ?w"
        using that lo hi by linarith
      then show ?thesis
        using lo hi by (simp add: divide_le_eq_1)
    qed
    show ?thesis
      using rows val bounds by simp
  qed
  show ?thesis
    using run pass early full by blast
qed

theorem normalized_speed_assignment_witness:
  "calculate_tsa_indicators short_window three_bars = Inr three_bars_out
    \<and> (2::nat) < length three_bars
    \<and> normalized_speed (three_bars_out ! 2)
        = normalize_speed short_window three_bars_out 2 (trend_speed (three_bars_out ! 2))
    \<and> normalized_speed (three_bars_out ! 2) = Fin 0
    \<and> (1::nat) < collen short_window
    \<and> normalize_speed short_window three_bars_out 1 (trend_speed (three_bars_out ! 1)) = Fin (1 / 2)
    \<and> collen default_params \<le> 100 \<and> (100::nat) < length full_window
    \<and> 0 < collen default_params
    \<and> Max (set (speed_window default_params full_window 100))
        \<noteq> Min (set (speed_window default_params full_window 100))
    \<and> normalize_speed default_params full_window 100 (trend_speed (full_window ! 100)) = Fin 1"
proof -
  have a: "calculate_tsa_indicators short_window three_bars = Inr three_bars_out"
    by (rule run3)
  have b: "(2::nat) < length three_bars"
    by (simp add: three_bars_def)
  have c: "(1::nat) < collen short_window"
    by (simp add: short_window_def)
  have e: "collen default_params \<le> 100 \<and> (100::nat) < length full_window
      \<and> 0 < collen default_params"
    by (simp add: default_params_def full_window_speeds)
  have g: "Max (set (speed_window default_params full_window 100))
      \<noteq> Min (set (speed_window default_params full_window 100))"
    by (simp add: full_window_extremes)
  have r2: "normalized_speed (three_bars_out ! 2)
      = normalize_speed short_window three_bars_out 2 (trend_speed (three_bars_out ! 2))"
    using a b normalized_speed_assignment [of short_window three_bars three_bars_out 2]
    by simp
  have r1: "normalize_speed short_window three_bars_out 1 (trend_speed (three_bars_out ! 1))
      = Fin (1 / 2)"
    using c normalized_speed_assignment [where p = short_window and j = 1 and f = three_bars_out]
    by blast
  have "normalize_speed default_params full_window 100 (trend_speed (full_window ! 100))
      = Fin ((trend_speed (full_window ! 100)
                - Min (set (speed_window default_params full_window 100)))
             / (Max (set (speed_window default_params full_window 100))
                - Min (set (speed_window default_params full_window 100))))"
    using e g normalized_speed_assignment [where p = default_params and j = 100 and f = full_window]
    by blast
  then have r100: "normalize_speed default_params full_window 100 (trend_speed (full_window ! 100))
      = Fin 1"
    by (simp add: full_window_extremes full_window_speeds)
  have v2: "normalized_speed (three_bars_out ! 2) = Fin 0"
    by (simp add: three_bars_out_def)
  show ?thesis
    using a b c e g r1 r2 r100 v2 by simp
qed

subsection \<open>Where the computation returns\<close>

text \<open>
  Up to bar 3 \<^verbatim>\<open>_calculate_hma\<close> hands the speed back unsmoothed.  From bar 4 on it calls
  \<^verbatim>\<open>np.average\<close> on the last three values with the two weights \<^verbatim>\<open>range(1, 3)\<close>, which
  raises \<^verbatim>\<open>TypeError\<close>.  So the computation returns exactly on frames of at most four
  bars.
\<close>

lemma tsa_iter_returns:
  assumes "i < 4"
  shows "\<exists>s'. tsa_iter p s i = Inr s'"
  using assms by (simp add: tsa_iter_def Let_def calculate_hma_early)

lemma tsa_iter_raises:
  assumes "4 \<le> i" and "i < length (data s)"
  shows "tsa_iter p s i = Inl TypeError"
  using assms
  by (simp add: tsa_iter_def Let_def update_speed_data set_lengths calculate_hma_raises)

lemma tsa_loop_returns:
  "\<forall>i\<in>set js. i < 4 \<Longrightarrow> \<exists>s'. tsa_loop p js s = Inr s'"
proof (induction js arbitrary: s)
  case Nil
  then show ?case by simp
next
  case (Cons j js)
  then obtain s1 where "tsa_iter p s j = Inr s1"
    using tsa_iter_returns [of j p s] by auto
  then show ?case
    using Cons by simp
qed

lemma calculate_tsa_indicators_raises:
  assumes "5 \<le> length d"
  shows "calculate_tsa_indicators p d = Inl TypeError"
proof -
  have "[0..<length d] = [0..<4] @ [4..<length d]"
    using assms by (intro upt_split) simp
  moreover have "[4..<length d] = 4 # [5..<length d]"
    using assms by (simp add: upt_rec)
  ultimately have split: "[0..<length d] = [0..<4] @ 4 # [5..<length d]"
    by simp
  obtain s4 where s4: "tsa_loop p [0..<4] (tsa_init d) = Inr s4"
    using tsa_loop_returns [of "[0..<4]" p "tsa_init d"] by auto
  have "length (data s4) = length d"
    using tsa_loop_length [OF s4] by (simp add: tsa_init_def)
  then have "tsa_iter p s4 4 = Inl TypeError"
    using assms by (intro tsa_iter_raises) simp_all
  then show ?thesis
    unfolding calculate_tsa_indicators_def split
    by (simp add: tsa_loop_append s4)
qed

lemma calculate_tsa_indicators_returns:
  assumes "length d \<le> 4"
  shows "\<exists>out. calculate_tsa_indicators p d = Inr out"
proof -
  obtain s' where "tsa_loop p [0..<length d] (tsa_init d) = Inr s'"
    using tsa_loop_returns [of "[0..<length d]" p "tsa_init d"] assms by auto
  then show ?thesis
    by (simp add: calculate_tsa_indicators_def)
qed

subsection \<open>The acceleration factor\<close>

lemma settled_row_fields:
  "close (settled_row t c) = c" "open_p (settled_row t c) = c" "dyn_ema (settled_row t c) = Fin c"
  by (simp_all add: settled_row_def price_row_def)

lemma jump_data_nth:
  "jump_data ! 199 = price_row 199 100 110"
  "jump_data ! 198 = settled_row 198 100"
  "length jump_data = 200"
  by (simp_all add: jump_data_def nth_append)

lemma closes_jump:
  "map close jump_data = replicate 199 100 @ [110]"
  by (simp add: jump_data_def settled_row_fields price_row_def comp_def map_replicate_const)

lemma closes_jump_nth:
  "map close jump_data ! 199 = 110" "length (map close jump_data) = 200"
  by (simp_all add: closes_jump nth_append)

lemma rolling_max_jump: "rolling_max_abs (map close jump_data) ! 199 = Fin 110"
  by (simp add: closes_jump rolling_max_abs_nth series_max_def)

lemma accel_factor_jump: "accel_factor (map close jump_data) 100 199 = Fin (1 / 11)"
  by (simp add: accel_factor_def closes_jump_nth rolling_max_jump py_max_def Let_def
      del: length_map)

text \<open>
  Claim C4 at two frames.  On \<open>two_bars\<close> the first pass leaves \<^verbatim>\<open>prev_counts_diff\<close> at its
  initial \<open>0\<close>, and at bar 1 the rolling maximum is \<^verbatim>\<open>nan\<close>, which \<^verbatim>\<open>max(nan, 1)\<close>
  keeps: the factor is \<^verbatim>\<open>nan\<close>.  On \<open>jump_data\<close> the only change of the close is the
  last one, of 10, so the rolling maximum of the change is 10 and the quotient of the claim
  is 1; the divisor of the code is the rolling maximum of the absolute close, 110, and the
  factor is \<open>1 / 11\<close>.
\<close>

theorem accel_factor_divisor:
  "prev_counts_diff (tsa_init two_bars) = 0
    \<and> (case tsa_iter default_params (tsa_init two_bars) 0 of
         Inl e \<Rightarrow> False
       | Inr s \<Rightarrow> prev_counts_diff s = 0
           \<and> accel_factor (map close (data s)) (prev_counts_diff s) 1 = NaN)
    \<and> rolling_max_abs (map close jump_data) ! 199 = Fin 110
    \<and> \<bar>close (jump_data ! 199) - close (jump_data ! 198)\<bar> = 10
    \<and> accel_factor (map close jump_data) (close (jump_data ! 198)) 199 = Fin (1 / 11)"
proof -
  have "accel_factor [100, 102] 0 1 = NaN"
    by (simp add: accel_factor_def rolling_max_abs_nth py_max_def Let_def)
  then have two: "case tsa_iter default_params (tsa_init two_bars) 0 of
         Inl e \<Rightarrow> False
       | Inr s \<Rightarrow> prev_counts_diff s = 0
           \<and> accel_factor (map close (data s)) (prev_counts_diff s) 1 = NaN"
    by (simp add: tsa_iter_def tsa_init_def two_bars_def set_dyn_ema_def price_row_def)
  have "close (jump_data ! 198) = 100" "close (jump_data ! 199) = 110"
    by (simp_all add: jump_data_nth settled_row_fields price_row_def)
  then show ?thesis
    using two by (simp add: rolling_max_jump accel_factor_jump) (simp add: tsa_init_def)
qed

subsection \<open>The crossover tests and the speed\<close>












end
